theory Spec2Isabelle
  imports Main
begin

section \<open>Data model (types/chess)\<close>

text \<open>
  Squares are JavaScript strings such as \<open>''e4''\<close>; a character is one code unit.
  A \<open>Position\<close> is a plain object indexed by square. \<open>Object.entries\<close> enumerates its
  keys in insertion order (a square name is never an array index, which would come
  first), so the object is an association list in that order, with distinct keys.
  The value \<open>None\<close> stands for both \<open>null\<close> and \<open>undefined\<close>: a missing key reads
  as \<open>undefined\<close>, and the code tests a looked-up piece for truthiness only. (The one
  test \<open>piece !== null\<close>, in \<open>isInsufficientMaterial\<close>, runs on the engine's own
  position: that object always has the 64 keys of \<open>createInitialPosition\<close>, each
  holding a piece or \<open>null\<close>.)
  JavaScript numbers that count (clocks, coordinates, depths) are integers.
\<close>

datatype PieceColor = White | Black

datatype PieceType = Pawn | Rook | Knight | Bishop | Queen | King

type_synonym Square = string

record Piece =
  ptype :: PieceType
  color :: PieceColor

type_synonym Position = "(Square \<times> Piece option) list"

datatype CastlingSide = Kingside | Queenside

record Move =
  mfrom :: Square
  mto :: Square
  piece :: Piece
  captured :: "Piece option"
  promotion :: "PieceType option"
  castling :: "CastlingSide option"
  enPassant :: bool

record CastlingRights =
  whiteKingside :: bool
  whiteQueenside :: bool
  blackKingside :: bool
  blackQueenside :: bool

text \<open>
  \<open>moveHistory\<close> is a JavaScript array, shared by reference between every copy of a
  game state made with the spread operator; the field holds the array's address in a
  store of arrays (see the Game State Manager below).
\<close>

type_synonym ref = nat

record GameState =
  position :: Position
  activeColor :: PieceColor
  castlingRights :: CastlingRights
  enPassantTarget :: "Square option"
  halfmoveClock :: int
  fullmoveNumber :: int
  moveHistory :: ref

datatype Winner = Wins PieceColor | Draw

datatype Reason = Checkmate | Stalemate | InsufficientMaterial | FiftyMove
  | ThreefoldRepetition | Resignation | Timeout

record GameResult =
  winner :: Winner
  reason :: Reason

text \<open>Reading \<open>position[square]\<close> and the assignment \<open>position[square] = v\<close>:
  an existing key keeps its place, a new key goes last.\<close>

definition pos_get :: "Position \<Rightarrow> Square \<Rightarrow> Piece option" where
  "pos_get p k = (case map_of p k of None \<Rightarrow> None | Some v \<Rightarrow> v)"

fun pos_set :: "Position \<Rightarrow> Square \<Rightarrow> Piece option \<Rightarrow> Position" where
  "pos_set [] k v = [(k, v)]"
| "pos_set ((k', v') # p) k v = (if k' = k then (k, v) # p else (k', v') # pos_set p k v)"

definition opposite :: "PieceColor \<Rightarrow> PieceColor" where
  "opposite c = (if c = White then Black else White)"

section \<open>Board Model (core/ChessBoard)\<close>

definition FILES :: "string list" where
  "FILES = [''a'', ''b'', ''c'', ''d'', ''e'', ''f'', ''g'', ''h'']"

text \<open>The ranks \<open>'1'\<close> to \<open>'8'\<close>, each a one-character string.\<close>

definition RANKS :: "string list" where
  "RANKS = map (\<lambda>c. [c]) ''12345678''"

text \<open>\<open>s[i]\<close> is a one-character string, or \<open>undefined\<close> past the end.\<close>

definition charAt :: "string \<Rightarrow> nat \<Rightarrow> string option" where
  "charAt s i = (if i < length s then Some [s ! i] else None)"

text \<open>\<open>Array.prototype.indexOf\<close>: the first index holding the value, or \<open>-1\<close>.\<close>

fun indexOf_from :: "int \<Rightarrow> string list \<Rightarrow> string option \<Rightarrow> int" where
  "indexOf_from i [] x = -1"
| "indexOf_from i (y # ys) x = (if x = Some y then i else indexOf_from (i + 1) ys x)"

definition indexOf :: "string list \<Rightarrow> string option \<Rightarrow> int" where
  "indexOf xs x = indexOf_from 0 xs x"

definition squareToCoordinates :: "Square \<Rightarrow> int \<times> int" where
  "squareToCoordinates square = (indexOf FILES (charAt square 0), indexOf RANKS (charAt square 1))"

definition coordinatesToSquare :: "int \<Rightarrow> int \<Rightarrow> Square option" where
  "coordinatesToSquare file rank =
     (if file < 0 \<or> file > 7 \<or> rank < 0 \<or> rank > 7 then None
      else Some (FILES ! nat file @ RANKS ! nat rank))"

definition getAllSquares :: "Square list" where
  "getAllSquares = concat (map (\<lambda>file. map (\<lambda>rank. file @ rank) RANKS) FILES)"

definition white_pieces :: "PieceType list" where
  "white_pieces = [Rook, Knight, Bishop, Queen, King, Bishop, Knight, Rook]"

definition black_pieces :: "PieceType list" where
  "black_pieces = [Rook, Knight, Bishop, Queen, King, Bishop, Knight, Rook]"

definition createInitialPosition :: Position where
  "createInitialPosition =
     (let p0 = foldl (\<lambda>p file. foldl (\<lambda>p rank. pos_set p (file @ rank) None) p RANKS) [] FILES;
          p1 = foldl (\<lambda>p (t, index). pos_set p (FILES ! index @ ''1'') (Some \<lparr>ptype = t, color = White\<rparr>))
                 p0 (zip white_pieces [0 ..< length white_pieces]);
          p2 = foldl (\<lambda>p file. pos_set p (file @ ''2'') (Some \<lparr>ptype = Pawn, color = White\<rparr>)) p1 FILES;
          p3 = foldl (\<lambda>p (t, index). pos_set p (FILES ! index @ ''8'') (Some \<lparr>ptype = t, color = Black\<rparr>))
                 p2 (zip black_pieces [0 ..< length black_pieces]);
          p4 = foldl (\<lambda>p file. pos_set p (file @ ''7'') (Some \<lparr>ptype = Pawn, color = Black\<rparr>)) p3 FILES
      in p4)"

section \<open>Move Generator (core/MoveGenerator)\<close>

definition mk_move :: "Square \<Rightarrow> Square \<Rightarrow> Piece \<Rightarrow> Move" where
  "mk_move f t p = \<lparr>mfrom = f, mto = t, piece = p, captured = None, promotion = None,
                    castling = None, enPassant = False\<rparr>"

definition promotionPieces :: "PieceType list" where
  "promotionPieces = [Queen, Rook, Bishop, Knight]"

definition pawn_captures :: "GameState \<Rightarrow> Square \<Rightarrow> Piece \<Rightarrow> int \<Rightarrow> Move list" where
  "pawn_captures gameState from pc fileOffset =
     (let pos = position gameState;
          direction = (if color pc = White then 1 else -1);
          promotionRank = (if color pc = White then 7 else 0);
          (file, rank) = squareToCoordinates from
      in case coordinatesToSquare (file + fileOffset) (rank + direction) of
           None \<Rightarrow> []
         | Some captureSquare \<Rightarrow>
            (case pos_get pos captureSquare of
               None \<Rightarrow> []
             | Some targetPiece \<Rightarrow>
                 if color targetPiece \<noteq> color pc then
                   (if rank + direction = promotionRank
                    then map (\<lambda>promotionPiece.
                           (mk_move from captureSquare pc)
                             \<lparr>captured := Some targetPiece, promotion := Some promotionPiece\<rparr>)
                           promotionPieces
                    else [(mk_move from captureSquare pc)\<lparr>captured := Some targetPiece\<rparr>])
                 else [])
            @ (if Some captureSquare = enPassantTarget gameState then
                 (case (case coordinatesToSquare (file + fileOffset) rank of
                          None \<Rightarrow> None | Some capturedPawnSquare \<Rightarrow> pos_get pos capturedPawnSquare) of
                    None \<Rightarrow> []
                  | Some capturedPawn \<Rightarrow>
                      [(mk_move from captureSquare pc)
                         \<lparr>captured := Some capturedPawn, enPassant := True\<rparr>])
               else []))"

definition generatePawnMoves :: "GameState \<Rightarrow> Square \<Rightarrow> Piece \<Rightarrow> Move list" where
  "generatePawnMoves gameState from pc =
     (let pos = position gameState;
          direction = (if color pc = White then 1 else -1);
          startRank = (if color pc = White then 1 else 6);
          promotionRank = (if color pc = White then 7 else 0);
          (file, rank) = squareToCoordinates from;
          forward =
            (case coordinatesToSquare file (rank + direction) of
               None \<Rightarrow> []
             | Some oneSquareForward \<Rightarrow>
                 if pos_get pos oneSquareForward = None then
                   (if rank + direction = promotionRank
                    then map (\<lambda>promotionPiece.
                           (mk_move from oneSquareForward pc)\<lparr>promotion := Some promotionPiece\<rparr>)
                           promotionPieces
                    else mk_move from oneSquareForward pc #
                      (if rank = startRank then
                         (case coordinatesToSquare file (rank + 2 * direction) of
                            None \<Rightarrow> []
                          | Some twoSquaresForward \<Rightarrow>
                              if pos_get pos twoSquaresForward = None
                              then [mk_move from twoSquaresForward pc] else [])
                       else []))
                 else [])
      in forward @ concat (map (pawn_captures gameState from pc) [-1, 1]))"

text \<open>One ray of a sliding piece: the inner loop \<open>for (let i = 1; i < 8; i++)\<close> with
  its two \<open>break\<close>s.\<close>

function slide_ray :: "Position \<Rightarrow> Square \<Rightarrow> Piece \<Rightarrow> int \<times> int \<Rightarrow> int \<times> int \<Rightarrow> int \<Rightarrow> Move list" where
  "slide_ray pos from pc fromCoords dir i =
     (if i < 8 then
        (case coordinatesToSquare (fst fromCoords + i * fst dir) (snd fromCoords + i * snd dir) of
           None \<Rightarrow> []
         | Some toSquare \<Rightarrow>
            (case pos_get pos toSquare of
               None \<Rightarrow> mk_move from toSquare pc # slide_ray pos from pc fromCoords dir (i + 1)
             | Some targetPiece \<Rightarrow>
                 if color targetPiece \<noteq> color pc
                 then [(mk_move from toSquare pc)\<lparr>captured := Some targetPiece\<rparr>]
                 else []))
      else [])"
  by pat_completeness auto
termination
  by (relation "measure (\<lambda>(pos, from, pc, fromCoords, dir, i). nat (8 - i))") auto

declare slide_ray.simps [simp del]

definition generateSlidingMoves :: "GameState \<Rightarrow> Square \<Rightarrow> Piece \<Rightarrow> (int \<times> int) list \<Rightarrow> Move list" where
  "generateSlidingMoves gameState from pc directions =
     concat (map (\<lambda>dir. slide_ray (position gameState) from pc (squareToCoordinates from) dir 1)
               directions)"

definition generateRookMoves :: "GameState \<Rightarrow> Square \<Rightarrow> Piece \<Rightarrow> Move list" where
  "generateRookMoves gameState from pc =
     generateSlidingMoves gameState from pc [(0, 1), (0, -1), (1, 0), (-1, 0)]"

definition generateBishopMoves :: "GameState \<Rightarrow> Square \<Rightarrow> Piece \<Rightarrow> Move list" where
  "generateBishopMoves gameState from pc =
     generateSlidingMoves gameState from pc [(1, 1), (1, -1), (-1, 1), (-1, -1)]"

definition generateQueenMoves :: "GameState \<Rightarrow> Square \<Rightarrow> Piece \<Rightarrow> Move list" where
  "generateQueenMoves gameState from pc =
     generateSlidingMoves gameState from pc
       [(0, 1), (0, -1), (1, 0), (-1, 0), (1, 1), (1, -1), (-1, 1), (-1, -1)]"

text \<open>The body shared by the knight's and the king's loop over a table of offsets.\<close>

definition step_move :: "Position \<Rightarrow> Square \<Rightarrow> Piece \<Rightarrow> int \<times> int \<Rightarrow> int \<times> int \<Rightarrow> Move list" where
  "step_move pos from pc fromCoords off =
     (case coordinatesToSquare (fst fromCoords + fst off) (snd fromCoords + snd off) of
        None \<Rightarrow> []
      | Some toSquare \<Rightarrow>
         (case pos_get pos toSquare of
            None \<Rightarrow> [mk_move from toSquare pc]
          | Some targetPiece \<Rightarrow>
              if color targetPiece \<noteq> color pc
              then [(mk_move from toSquare pc)\<lparr>captured := Some targetPiece\<rparr>]
              else []))"

definition knightMoves :: "(int \<times> int) list" where
  "knightMoves = [(-2, -1), (-2, 1), (-1, -2), (-1, 2), (1, -2), (1, 2), (2, -1), (2, 1)]"

definition kingMoves :: "(int \<times> int) list" where
  "kingMoves = [(-1, -1), (-1, 0), (-1, 1), (0, -1), (0, 1), (1, -1), (1, 0), (1, 1)]"

definition generateKnightMoves :: "GameState \<Rightarrow> Square \<Rightarrow> Piece \<Rightarrow> Move list" where
  "generateKnightMoves gameState from pc =
     concat (map (step_move (position gameState) from pc (squareToCoordinates from)) knightMoves)"

text \<open>\<open>position[sq]?.type === 'rook' && position[sq]?.color === c\<close>\<close>

definition is_rook_of :: "Position \<Rightarrow> Square \<Rightarrow> PieceColor \<Rightarrow> bool" where
  "is_rook_of pos sq c =
     (case pos_get pos sq of None \<Rightarrow> False | Some r \<Rightarrow> ptype r = Rook \<and> color r = c)"

definition generateCastlingMoves :: "GameState \<Rightarrow> Square \<Rightarrow> Piece \<Rightarrow> Move list" where
  "generateCastlingMoves gameState from pc =
     (let pos = position gameState; rights = castlingRights gameState in
      if color pc = White \<and> from = ''e1'' then
        (if whiteKingside rights \<and> pos_get pos ''f1'' = None \<and> pos_get pos ''g1'' = None
            \<and> is_rook_of pos ''h1'' White
         then [(mk_move from ''g1'' pc)\<lparr>castling := Some Kingside\<rparr>] else [])
        @ (if whiteQueenside rights \<and> pos_get pos ''d1'' = None \<and> pos_get pos ''c1'' = None
              \<and> pos_get pos ''b1'' = None \<and> is_rook_of pos ''a1'' White
           then [(mk_move from ''c1'' pc)\<lparr>castling := Some Queenside\<rparr>] else [])
      else if color pc = Black \<and> from = ''e8'' then
        (if blackKingside rights \<and> pos_get pos ''f8'' = None \<and> pos_get pos ''g8'' = None
            \<and> is_rook_of pos ''h8'' Black
         then [(mk_move from ''g8'' pc)\<lparr>castling := Some Kingside\<rparr>] else [])
        @ (if blackQueenside rights \<and> pos_get pos ''d8'' = None \<and> pos_get pos ''c8'' = None
              \<and> pos_get pos ''b8'' = None \<and> is_rook_of pos ''a8'' Black
           then [(mk_move from ''c8'' pc)\<lparr>castling := Some Queenside\<rparr>] else [])
      else [])"

definition generateKingMoves :: "GameState \<Rightarrow> Square \<Rightarrow> Piece \<Rightarrow> Move list" where
  "generateKingMoves gameState from pc =
     concat (map (step_move (position gameState) from pc (squareToCoordinates from)) kingMoves)
     @ generateCastlingMoves gameState from pc"

definition generatePieceMoves :: "GameState \<Rightarrow> Square \<Rightarrow> Piece \<Rightarrow> Move list" where
  "generatePieceMoves gameState from pc =
     (case ptype pc of
        Pawn \<Rightarrow> generatePawnMoves gameState from pc
      | Rook \<Rightarrow> generateRookMoves gameState from pc
      | Knight \<Rightarrow> generateKnightMoves gameState from pc
      | Bishop \<Rightarrow> generateBishopMoves gameState from pc
      | Queen \<Rightarrow> generateQueenMoves gameState from pc
      | King \<Rightarrow> generateKingMoves gameState from pc)"

definition generatePseudoLegalMoves :: "GameState \<Rightarrow> Move list" where
  "generatePseudoLegalMoves gameState =
     concat (map (\<lambda>(square, pc).
                case pc of
                  None \<Rightarrow> []
                | Some pc \<Rightarrow> if color pc = activeColor gameState
                            then generatePieceMoves gameState square pc else [])
             (position gameState))"

text \<open>The rook's squares of a castling move, and the pawn removed by an en-passant
  capture: \<open>move.to[0] + '5'\<close>, where \<open>move.to[0]\<close> of an empty string is
  \<open>undefined\<close> and concatenates as the text \<open>undefined\<close>.\<close>

definition str_of_char0 :: "string \<Rightarrow> string" where
  "str_of_char0 s = (case charAt s 0 of None \<Rightarrow> ''undefined'' | Some c \<Rightarrow> c)"

definition apply_castling :: "Position \<Rightarrow> Move \<Rightarrow> Position" where
  "apply_castling newPosition move =
     (case castling move of
        None \<Rightarrow> newPosition
      | Some Kingside \<Rightarrow>
          (let rookFrom = (if color (piece move) = White then ''h1'' else ''h8'');
               rookTo = (if color (piece move) = White then ''f1'' else ''f8'')
           in pos_set (pos_set newPosition rookTo (pos_get newPosition rookFrom)) rookFrom None)
      | Some Queenside \<Rightarrow>
          (let rookFrom = (if color (piece move) = White then ''a1'' else ''a8'');
               rookTo = (if color (piece move) = White then ''d1'' else ''d8'')
           in pos_set (pos_set newPosition rookTo (pos_get newPosition rookFrom)) rookFrom None))"

definition apply_enPassant :: "Position \<Rightarrow> Move \<Rightarrow> Position" where
  "apply_enPassant newPosition move =
     (if enPassant move then
        (let capturedPawnSquare =
               (if color (piece move) = White then str_of_char0 (mto move) @ ''5''
                else str_of_char0 (mto move) @ ''4'')
         in pos_set newPosition capturedPawnSquare None)
      else newPosition)"

definition MoveGenerator_makeMove :: "GameState \<Rightarrow> Move \<Rightarrow> GameState" where
  "MoveGenerator_makeMove gameState move =
     (let newPosition = pos_set (pos_set (position gameState) (mto move) (Some (piece move)))
                          (mfrom move) None;
          newPosition = apply_castling newPosition move;
          newPosition = apply_enPassant newPosition move;
          newPosition = (case promotion move of
                           None \<Rightarrow> newPosition
                         | Some t \<Rightarrow> pos_set newPosition (mto move)
                                      (Some \<lparr>ptype = t, color = color (piece move)\<rparr>))
      in gameState\<lparr>position := newPosition, activeColor := opposite (activeColor gameState)\<rparr>)"

fun findKing :: "Position \<Rightarrow> PieceColor \<Rightarrow> Square option" where
  "findKing [] c = None"
| "findKing ((square, pc) # rest) c =
     (case pc of
        None \<Rightarrow> findKing rest c
      | Some k \<Rightarrow> if ptype k = King \<and> color k = c then Some square else findKing rest c)"

text \<open>\<open>if (!kingSquare) return false\<close>: no king, or a king under the empty key (an
  empty string is falsy).\<close>

definition isInCheck :: "GameState \<Rightarrow> PieceColor \<Rightarrow> bool" where
  "isInCheck gameState c =
     (case findKing (position gameState) c of
        None \<Rightarrow> False
      | Some kingSquare \<Rightarrow>
          if kingSquare = [] then False
          else list_ex (\<lambda>move. mto move = kingSquare)
                 (generatePseudoLegalMoves (gameState\<lparr>activeColor := opposite c\<rparr>)))"

definition isLegalMove :: "GameState \<Rightarrow> Move \<Rightarrow> bool" where
  "isLegalMove gameState move =
     (\<not> isInCheck (MoveGenerator_makeMove gameState move) (activeColor gameState))"

definition generateLegalMoves :: "GameState \<Rightarrow> Move list" where
  "generateLegalMoves gameState =
     filter (isLegalMove gameState) (generatePseudoLegalMoves gameState)"

section \<open>Game State Manager (core/ChessEngine)\<close>

text \<open>
  The store of \<open>Move[]\<close> arrays. \<open>applyMove\<close> writes only to objects it has just
  created (the copied position, the copied castling rights), so those are values; the
  \<open>moveHistory\<close> array is the one object that is written through a shared reference
  (\<open>this.gameState.moveHistory.push(move)\<close>), so it lives in the store. An address is
  handed out only by \<open>heap_new\<close>; the reads and writes below leave an address that
  was never handed out alone.
\<close>

type_synonym heap = "Move list list"

definition heap_new :: "heap \<Rightarrow> ref \<times> heap" where
  "heap_new h = (length h, h @ [[]])"

definition heap_get :: "heap \<Rightarrow> ref \<Rightarrow> Move list" where
  "heap_get h r = (if r < length h then h ! r else [])"

definition heap_push :: "heap \<Rightarrow> ref \<Rightarrow> Move \<Rightarrow> heap" where
  "heap_push h r m = (if r < length h then h[r := h ! r @ [m]] else h)"

text \<open>The engine's private \<open>moveHistory: string[]\<close> (the keys recorded for the
  repetition rule) is the field \<open>moveHistory_engine\<close>.\<close>

record ChessEngine =
  gameState :: GameState
  moveHistory_engine :: "string list"

definition createInitialGameState :: "heap \<Rightarrow> GameState \<times> heap" where
  "createInitialGameState h =
     (let (r, h') = heap_new h
      in (\<lparr>position = createInitialPosition, activeColor = White,
           castlingRights = \<lparr>whiteKingside = True, whiteQueenside = True,
                               blackKingside = True, blackQueenside = True\<rparr>,
           enPassantTarget = None, halfmoveClock = 0, fullmoveNumber = 1,
           moveHistory = r\<rparr>, h'))"

definition new_ChessEngine :: "heap \<Rightarrow> ChessEngine \<times> heap" where
  "new_ChessEngine h =
     (let (gs, h') = createInitialGameState h
      in (\<lparr>gameState = gs, moveHistory_engine = []\<rparr>, h'))"

text \<open>\<open>{ ...this.gameState }\<close>: a new object with the same field values, the
  \<open>moveHistory\<close> address among them.\<close>

definition getGameState :: "ChessEngine \<Rightarrow> GameState" where
  "getGameState e = gameState e"

definition getLegalMoves :: "ChessEngine \<Rightarrow> Move list" where
  "getLegalMoves e = generateLegalMoves (gameState e)"

text \<open>\<open>parseInt\<close> of one character (or of \<open>undefined\<close>): \<open>None\<close> is \<open>NaN\<close>.\<close>

definition parseInt :: "string option \<Rightarrow> int option" where
  "parseInt s =
     (case s of
        Some [c] \<Rightarrow> if (48::int) \<le> of_char c \<and> of_char c \<le> (57::int)
                    then Some (of_char c - 48) else None
      | _ \<Rightarrow> None)"

definition applyMove :: "GameState \<Rightarrow> Move \<Rightarrow> GameState" where
  "applyMove gs move =
     (let newPosition =
            pos_set (pos_set (position gs) (mto move)
                       (case promotion move of
                          None \<Rightarrow> Some (piece move)
                        | Some t \<Rightarrow> Some \<lparr>ptype = t, color = color (piece move)\<rparr>))
              (mfrom move) None;
          newPosition = apply_castling newPosition move;
          newPosition = apply_enPassant newPosition move;
          target =
            (if ptype (piece move) = Pawn then
               (case (parseInt (charAt (mfrom move) 1), parseInt (charAt (mto move) 1)) of
                  (Some fromRank, Some toRank) \<Rightarrow>
                    if \<bar>toRank - fromRank\<bar> = 2
                    then Some (str_of_char0 (mfrom move)
                               @ (if color (piece move) = White then ''3'' else ''6''))
                    else None
                | _ \<Rightarrow> None)
             else None);
          rights = castlingRights gs;
          rights = (if ptype (piece move) = King then
                      (if color (piece move) = White
                       then rights\<lparr>whiteKingside := False, whiteQueenside := False\<rparr>
                       else rights\<lparr>blackKingside := False, blackQueenside := False\<rparr>)
                    else rights);
          rights = (if ptype (piece move) = Rook then
                      (let r1 = (if mfrom move = ''a1'' then rights\<lparr>whiteQueenside := False\<rparr> else rights);
                           r2 = (if mfrom move = ''h1'' then r1\<lparr>whiteKingside := False\<rparr> else r1);
                           r3 = (if mfrom move = ''a8'' then r2\<lparr>blackQueenside := False\<rparr> else r2);
                           r4 = (if mfrom move = ''h8'' then r3\<lparr>blackKingside := False\<rparr> else r3)
                       in r4)
                    else rights)
      in gs\<lparr>position := newPosition,
            activeColor := opposite (activeColor gs),
            enPassantTarget := target,
            halfmoveClock := (if captured move \<noteq> None \<or> ptype (piece move) = Pawn then 0
                              else halfmoveClock gs + 1),
            fullmoveNumber := (if activeColor gs = Black then fullmoveNumber gs + 1
                               else fullmoveNumber gs),
            castlingRights := rights\<rparr>)"

function str_of_nat :: "nat \<Rightarrow> string" where
  "str_of_nat n = (if n < 10 then [char_of (48 + n)]
                   else str_of_nat (n div 10) @ [char_of (48 + n mod 10)])"
  by pat_completeness auto
termination
  by (relation "measure id") auto

declare str_of_nat.simps [simp del]

definition pieceToChar :: "Piece \<Rightarrow> string" where
  "pieceToChar pc =
     (case ptype pc of
        Pawn \<Rightarrow> ''p'' | Rook \<Rightarrow> ''r'' | Knight \<Rightarrow> ''n''
      | Bishop \<Rightarrow> ''b'' | Queen \<Rightarrow> ''q'' | King \<Rightarrow> ''k'')"

definition toUpperCase :: "string \<Rightarrow> string" where
  "toUpperCase s = map (\<lambda>c. if (97::nat) \<le> of_char c \<and> of_char c \<le> (122::nat)
                            then char_of (of_char c - (32::nat)) else c) s"

definition toLowerCase :: "string \<Rightarrow> string" where
  "toLowerCase s = map (\<lambda>c. if (65::nat) \<le> of_char c \<and> of_char c \<le> (90::nat)
                            then char_of (of_char c + (32::nat)) else c) s"

text \<open>One rank of the key: the inner loop over the files, then the trailing count.\<close>

definition fen_rank :: "Position \<Rightarrow> int \<Rightarrow> string" where
  "fen_rank pos rank =
     (let (fen, emptyCount) =
            foldl (\<lambda>(fen, emptyCount) file.
                     case (case coordinatesToSquare file rank of
                             None \<Rightarrow> None | Some square \<Rightarrow> pos_get pos square) of
                       None \<Rightarrow> (fen, emptyCount + 1)
                     | Some pc \<Rightarrow>
                         ((if emptyCount > 0 then fen @ str_of_nat emptyCount else fen)
                          @ (if color pc = White then toUpperCase (pieceToChar pc)
                             else toLowerCase (pieceToChar pc)), 0))
                  ([], 0::nat) [0 .. 7]
      in if emptyCount > 0 then fen @ str_of_nat emptyCount else fen)"

definition positionToFEN :: "ChessEngine \<Rightarrow> string" where
  "positionToFEN e =
     foldl (\<lambda>fen rank. fen @ fen_rank (position (gameState e)) rank
                         @ (if rank > 0 then ''/'' else []))
       [] (rev [0 .. 7])"

text \<open>\<open>makeMove\<close> takes the engine and the store and returns its boolean with both.\<close>

definition ChessEngine_makeMove :: "Move \<Rightarrow> ChessEngine \<times> heap \<Rightarrow> bool \<times> ChessEngine \<times> heap" where
  "ChessEngine_makeMove move eh =
     (let (e, h) = eh;
          legalMoves = getLegalMoves e;
          isLegal = list_ex (\<lambda>legalMove. mfrom legalMove = mfrom move
                                        \<and> mto legalMove = mto move
                                        \<and> promotion legalMove = promotion move) legalMoves
      in if \<not> isLegal then (False, e, h)
         else
           (let e1 = e\<lparr>gameState := applyMove (gameState e) move\<rparr>;
                h1 = heap_push h (moveHistory (gameState e1)) move;
                e2 = e1\<lparr>moveHistory_engine := moveHistory_engine e1 @ [positionToFEN e1]\<rparr>
            in (True, e2, h1)))"

definition isInsufficientMaterial :: "ChessEngine \<Rightarrow> bool" where
  "isInsufficientMaterial e =
     (let pieces = filter (\<lambda>pc. pc \<noteq> None) (map snd (position (gameState e))) in
      if length pieces = 2 then True
      else if length pieces = 3 then
        (let nonKingPieces = filter (\<lambda>pc. map_option ptype pc \<noteq> Some King) pieces
         in length nonKingPieces = 1
            \<and> (map_option ptype (hd nonKingPieces) = Some Bishop
               \<or> map_option ptype (hd nonKingPieces) = Some Knight))
      else False)"

definition isGameOver :: "ChessEngine \<Rightarrow> GameResult option" where
  "isGameOver e =
     (let legalMoves = getLegalMoves e;
          inCheck = isInCheck (gameState e) (activeColor (gameState e))
      in if length legalMoves = 0 \<and> inCheck then
           Some \<lparr>winner = Wins (opposite (activeColor (gameState e))), reason = Checkmate\<rparr>
         else if length legalMoves = 0 \<and> \<not> inCheck then
           Some \<lparr>winner = Draw, reason = Stalemate\<rparr>
         else if halfmoveClock (gameState e) \<ge> 100 then
           Some \<lparr>winner = Draw, reason = FiftyMove\<rparr>
         else
           (let currentPosition = positionToFEN e;
                repetitions = length (filter (\<lambda>pos. pos = currentPosition) (moveHistory_engine e))
            in if repetitions \<ge> 3 then Some \<lparr>winner = Draw, reason = ThreefoldRepetition\<rparr>
               else if isInsufficientMaterial e then
                 Some \<lparr>winner = Draw, reason = InsufficientMaterial\<rparr>
               else None))"

definition reset :: "ChessEngine \<times> heap \<Rightarrow> ChessEngine \<times> heap" where
  "reset eh =
     (let (e, h) = eh; (gs, h') = createInitialGameState h
      in (\<lparr>gameState = gs, moveHistory_engine = []\<rparr>, h'))"

section \<open>Search Engine (ai/ChessAI)\<close>

text \<open>
  Scores are JavaScript numbers: integers, the two infinities that start the alpha-beta
  window, and \<open>NaN\<close>, which the evaluation produces when a table lookup is
  \<open>undefined\<close>. A comparison with \<open>NaN\<close> is false; \<open>Math.max\<close> and
  \<open>Math.min\<close> of \<open>NaN\<close> are \<open>NaN\<close>.
\<close>

datatype jsnum = NaN | NegInf | Fin int | PosInf

fun jlt :: "jsnum \<Rightarrow> jsnum \<Rightarrow> bool" where
  "jlt NaN b = False"
| "jlt a NaN = False"
| "jlt a NegInf = False"
| "jlt NegInf b = True"
| "jlt PosInf b = False"
| "jlt (Fin x) PosInf = True"
| "jlt (Fin x) (Fin y) = (x < y)"

definition jle :: "jsnum \<Rightarrow> jsnum \<Rightarrow> bool" where
  "jle a b = (a \<noteq> NaN \<and> b \<noteq> NaN \<and> (a = b \<or> jlt a b))"

definition jmax :: "jsnum \<Rightarrow> jsnum \<Rightarrow> jsnum" where
  "jmax a b = (if a = NaN \<or> b = NaN then NaN else if jlt a b then b else a)"

definition jmin :: "jsnum \<Rightarrow> jsnum \<Rightarrow> jsnum" where
  "jmin a b = (if a = NaN \<or> b = NaN then NaN else if jlt b a then b else a)"

fun jneg :: "jsnum \<Rightarrow> jsnum" where
  "jneg NaN = NaN"
| "jneg NegInf = PosInf"
| "jneg (Fin x) = Fin (- x)"
| "jneg PosInf = NegInf"

fun jadd :: "jsnum \<Rightarrow> jsnum \<Rightarrow> jsnum" where
  "jadd NaN b = NaN"
| "jadd a NaN = NaN"
| "jadd (Fin x) (Fin y) = Fin (x + y)"
| "jadd NegInf PosInf = NaN"
| "jadd PosInf NegInf = NaN"
| "jadd NegInf b = NegInf"
| "jadd a NegInf = NegInf"
| "jadd PosInf b = PosInf"
| "jadd a PosInf = PosInf"

record TTEntry =
  tt_score :: jsnum
  tt_depth :: nat
  tt_move :: "Move option"

record SearchResult =
  score :: jsnum
  move :: "Move option"

text \<open>The three caches of one \<open>ChessAI\<close> instance (\<open>config\<close> is read by
  \<open>getBestMove\<close> only). The constructor fills \<open>killerMoves\<close> with 20 empty lists.\<close>

record ChessAI =
  transpositionTable :: "string \<rightharpoonup> TTEntry"
  killerMoves :: "Move list list"
  historyTable :: "string \<rightharpoonup> int"

definition new_ChessAI :: ChessAI where
  "new_ChessAI = \<lparr>transpositionTable = Map.empty, killerMoves = replicate 20 [],
                   historyTable = Map.empty\<rparr>"

definition getPieceValue :: "PieceType \<Rightarrow> int" where
  "getPieceValue t =
     (case t of Pawn \<Rightarrow> 100 | Knight \<Rightarrow> 320 | Bishop \<Rightarrow> 330
              | Rook \<Rightarrow> 500 | Queen \<Rightarrow> 900 | King \<Rightarrow> 20000)"

definition getMVVLVA :: "Move \<Rightarrow> int" where
  "getMVVLVA m =
     (case captured m of
        None \<Rightarrow> 0
      | Some victim \<Rightarrow> getPieceValue (ptype victim) * 10 - getPieceValue (ptype (piece m)))"

definition pawn_table :: "int list" where
  "pawn_table =
     [0, 0, 0, 0, 0, 0, 0, 0,
      50, 50, 50, 50, 50, 50, 50, 50,
      10, 10, 20, 30, 30, 20, 10, 10,
      5, 5, 10, 25, 25, 10, 5, 5,
      0, 0, 0, 20, 20, 0, 0, 0,
      5, -5, -10, 0, 0, -10, -5, 5,
      5, 10, 10, -20, -20, 10, 10, 5,
      0, 0, 0, 0, 0, 0, 0, 0]"

definition knight_table :: "int list" where
  "knight_table =
     [-50, -40, -30, -30, -30, -30, -40, -50,
      -40, -20, 0, 0, 0, 0, -20, -40,
      -30, 0, 10, 15, 15, 10, 0, -30,
      -30, 5, 15, 20, 20, 15, 5, -30,
      -30, 0, 15, 20, 20, 15, 0, -30,
      -30, 5, 10, 15, 15, 10, 5, -30,
      -40, -20, 0, 5, 5, 0, -20, -40,
      -50, -40, -30, -30, -30, -30, -40, -50]"

definition bishop_table :: "int list" where
  "bishop_table =
     [-20, -10, -10, -10, -10, -10, -10, -20,
      -10, 0, 0, 0, 0, 0, 0, -10,
      -10, 0, 5, 10, 10, 5, 0, -10,
      -10, 5, 5, 10, 10, 5, 5, -10,
      -10, 0, 10, 10, 10, 10, 0, -10,
      -10, 10, 10, 10, 10, 10, 10, -10,
      -10, 5, 0, 0, 0, 0, 5, -10,
      -20, -10, -10, -10, -10, -10, -10, -20]"

definition rook_table :: "int list" where
  "rook_table =
     [0, 0, 0, 0, 0, 0, 0, 0,
      5, 10, 10, 10, 10, 10, 10, 5,
      -5, 0, 0, 0, 0, 0, 0, -5,
      -5, 0, 0, 0, 0, 0, 0, -5,
      -5, 0, 0, 0, 0, 0, 0, -5,
      -5, 0, 0, 0, 0, 0, 0, -5,
      -5, 0, 0, 0, 0, 0, 0, -5,
      0, 0, 0, 5, 5, 0, 0, 0]"

definition queen_table :: "int list" where
  "queen_table =
     [-20, -10, -10, -5, -5, -10, -10, -20,
      -10, 0, 0, 0, 0, 0, 0, -10,
      -10, 0, 5, 5, 5, 5, 0, -10,
      -5, 0, 5, 5, 5, 5, 0, -5,
      0, 0, 5, 5, 5, 5, 0, -5,
      -10, 5, 5, 5, 5, 5, 0, -10,
      -10, 0, 5, 0, 0, 0, 0, -10,
      -20, -10, -10, -5, -5, -10, -10, -20]"

definition king_table :: "int list" where
  "king_table =
     [-30, -40, -40, -50, -50, -40, -40, -30,
      -30, -40, -40, -50, -50, -40, -40, -30,
      -30, -40, -40, -50, -50, -40, -40, -30,
      -30, -40, -40, -50, -50, -40, -40, -30,
      -20, -30, -30, -40, -40, -30, -30, -20,
      -10, -20, -20, -20, -20, -20, -20, -10,
      20, 20, 0, 0, 0, 0, 20, 20,
      20, 30, 10, 0, 0, 10, 30, 20]"

definition getPieceSquareTables :: "PieceType \<Rightarrow> int list" where
  "getPieceSquareTables t =
     (case t of Pawn \<Rightarrow> pawn_table | Knight \<Rightarrow> knight_table | Bishop \<Rightarrow> bishop_table
              | Rook \<Rightarrow> rook_table | Queen \<Rightarrow> queen_table | King \<Rightarrow> king_table)"

text \<open>\<open>square.charCodeAt(0) - 97\<close> and \<open>parseInt(square[1]) - 1\<close>; \<open>None\<close> is
  \<open>NaN\<close>.\<close>

definition file_of_code :: "string \<Rightarrow> int option" where
  "file_of_code square = (case square of [] \<Rightarrow> None | c # cs \<Rightarrow> Some (of_char c - 97))"

definition rank_of_digit :: "string \<Rightarrow> int option" where
  "rank_of_digit square = map_option (\<lambda>r. r - 1) (parseInt (charAt square 1))"

definition squareToIndex :: "string \<Rightarrow> int option" where
  "squareToIndex square =
     (case (file_of_code square, rank_of_digit square) of
        (Some file, Some rank) \<Rightarrow> Some (rank * 8 + file)
      | _ \<Rightarrow> None)"

definition evaluateMaterial :: "GameState \<Rightarrow> int" where
  "evaluateMaterial gs =
     foldl (\<lambda>score pc. case pc of
                          None \<Rightarrow> score
                        | Some pc \<Rightarrow> (let v = getPieceValue (ptype pc)
                                     in score + (if color pc = White then v else - v)))
       0 (map snd (position gs))"

definition evaluatePosition_Positional :: "GameState \<Rightarrow> jsnum" where
  "evaluatePosition_Positional gs =
     foldl (\<lambda>score (square, pc).
              case pc of
                None \<Rightarrow> score
              | Some pc \<Rightarrow>
                  (let tableValue =
                         (case squareToIndex square of
                            None \<Rightarrow> NaN
                          | Some squareIndex \<Rightarrow>
                              if 0 \<le> squareIndex \<and> squareIndex < 64
                              then Fin (getPieceSquareTables (ptype pc) ! nat squareIndex)
                              else NaN)
                   in jadd score (if color pc = White then tableValue else jneg tableValue)))
       (Fin 0) (position gs)"

definition getKingSafetyScore :: "GameState \<Rightarrow> string \<Rightarrow> PieceColor \<Rightarrow> int" where
  "getKingSafetyScore gs kingSquare c =
     (case (file_of_code kingSquare, rank_of_digit kingSquare) of
        (Some file, Some rank) \<Rightarrow>
          if file \<ge> 2 \<and> file \<le> 5 \<and> rank \<ge> 2 \<and> rank \<le> 5 then - 20 else 0
      | _ \<Rightarrow> 0)"

fun ChessAI_findKing :: "Position \<Rightarrow> PieceColor \<Rightarrow> string option" where
  "ChessAI_findKing [] c = None"
| "ChessAI_findKing ((square, pc) # rest) c =
     (case pc of
        None \<Rightarrow> ChessAI_findKing rest c
      | Some k \<Rightarrow> if ptype k = King \<and> color k = c then Some square
                  else ChessAI_findKing rest c)"

definition evaluateKingSafety :: "GameState \<Rightarrow> int" where
  "evaluateKingSafety gs =
     (let white_part =
            (case ChessAI_findKing (position gs) White of
               None \<Rightarrow> 0
             | Some sq \<Rightarrow> if sq = [] then 0 else getKingSafetyScore gs sq White);
          black_part =
            (case ChessAI_findKing (position gs) Black of
               None \<Rightarrow> 0
             | Some sq \<Rightarrow> if sq = [] then 0 else getKingSafetyScore gs sq Black)
      in white_part - black_part)"

definition is_pawn_of :: "GameState \<Rightarrow> string \<Rightarrow> PieceColor \<Rightarrow> bool" where
  "is_pawn_of gs square c =
     (case pos_get (position gs) square of
        None \<Rightarrow> False | Some pc \<Rightarrow> ptype pc = Pawn \<and> color pc = c)"

definition hasAdjacentPawns :: "GameState \<Rightarrow> string option \<Rightarrow> string option \<Rightarrow> PieceColor \<Rightarrow> bool" where
  "hasAdjacentPawns gs leftFile rightFile c =
     (if leftFile = None \<and> rightFile = None then False
      else list_ex (\<lambda>rank.
             (case leftFile of None \<Rightarrow> False
                | Some f \<Rightarrow> is_pawn_of gs (f @ str_of_nat rank) c)
             \<or> (case rightFile of None \<Rightarrow> False
                  | Some f \<Rightarrow> is_pawn_of gs (f @ str_of_nat rank) c))
           [1 ..< 9])"

text \<open>\<open>files[i]\<close>, \<open>undefined\<close> outside the array.\<close>

definition file_at :: "int \<Rightarrow> string option" where
  "file_at i = (if 0 \<le> i \<and> i < 8 then Some (FILES ! nat i) else None)"

definition pawn_structure_file :: "GameState \<Rightarrow> string \<Rightarrow> int" where
  "pawn_structure_file gs file =
     (let whitePawns = filter (\<lambda>rank. is_pawn_of gs (file @ str_of_nat rank) White) [1 ..< 9];
          blackPawns = filter (\<lambda>rank. is_pawn_of gs (file @ str_of_nat rank) Black) [1 ..< 9];
          doubled =
            (if length whitePawns > 1 then - 20 * (int (length whitePawns) - 1) else 0)
            + (if length blackPawns > 1 then 20 * (int (length blackPawns) - 1) else 0);
          leftFile = file_at (indexOf FILES (Some file) - 1);
          rightFile = file_at (indexOf FILES (Some file) + 1);
          isolated =
            (if length whitePawns > 0 \<and> \<not> hasAdjacentPawns gs leftFile rightFile White
             then - 15 else 0)
            + (if length blackPawns > 0 \<and> \<not> hasAdjacentPawns gs leftFile rightFile Black
               then 15 else 0)
      in doubled + isolated)"

definition evaluatePawnStructure :: "GameState \<Rightarrow> int" where
  "evaluatePawnStructure gs = foldl (\<lambda>score file. score + pawn_structure_file gs file) 0 FILES"

definition evaluatePosition :: "GameState \<Rightarrow> jsnum" where
  "evaluatePosition gs =
     (let score = jadd (jadd (jadd (Fin (evaluateMaterial gs)) (evaluatePosition_Positional gs))
                          (Fin (evaluateKingSafety gs)))
                    (Fin (evaluatePawnStructure gs))
      in if activeColor gs = White then score else jneg score)"

text \<open>The search's own move application. The \<open>new ChessEngine()\<close> it creates is never
  used and cannot be reached afterwards.\<close>

definition ChessAI_makeMove :: "GameState \<Rightarrow> Move \<Rightarrow> GameState" where
  "ChessAI_makeMove gs m =
     (let newPosition = pos_set (pos_set (position gs) (mto m) (Some (piece m))) (mfrom m) None
      in gs\<lparr>position := newPosition, activeColor := opposite (activeColor gs)\<rparr>)"

definition color_initial :: "PieceColor \<Rightarrow> string" where
  "color_initial c = (case c of White \<Rightarrow> ''w'' | Black \<Rightarrow> ''b'')"

definition type_initial :: "PieceType \<Rightarrow> string" where
  "type_initial t =
     (case t of Pawn \<Rightarrow> ''p'' | Rook \<Rightarrow> ''r'' | Knight \<Rightarrow> ''k''
              | Bishop \<Rightarrow> ''b'' | Queen \<Rightarrow> ''q'' | King \<Rightarrow> ''k'')"

definition getPositionKey :: "GameState \<Rightarrow> string" where
  "getPositionKey gs =
     foldl (\<lambda>key rank.
              foldl (\<lambda>key file.
                       case pos_get (position gs) (file @ str_of_nat rank) of
                         None \<Rightarrow> key @ ''-''
                       | Some pc \<Rightarrow> key @ color_initial (color pc) @ type_initial (ptype pc))
                key FILES)
       [] (rev [1 ..< 9])
     @ color_initial (activeColor gs)"

definition type_name :: "PieceType \<Rightarrow> string" where
  "type_name t =
     (case t of Pawn \<Rightarrow> ''pawn'' | Rook \<Rightarrow> ''rook'' | Knight \<Rightarrow> ''knight''
              | Bishop \<Rightarrow> ''bishop'' | Queen \<Rightarrow> ''queen'' | King \<Rightarrow> ''king'')"

definition getMoveKey :: "Move \<Rightarrow> string" where
  "getMoveKey m = mfrom m @ ''-'' @ mto m @ ''-'' @ type_name (ptype (piece m))"

text \<open>
  \<open>this.killerMoves[ply].includes(a)\<close> compares object identity. The moves being
  ordered are the objects that the \<open>generateLegalMoves\<close> call in the argument has
  just created, and a killer list holds objects created by earlier calls, so the test
  is false for every move that \<open>orderMoves\<close> is ever given.
\<close>

definition killer_includes :: "ChessAI \<Rightarrow> nat \<Rightarrow> Move \<Rightarrow> bool" where
  "killer_includes ai ply m = False"

definition order_score :: "ChessAI \<Rightarrow> nat \<Rightarrow> Move \<Rightarrow> int" where
  "order_score ai ply m =
     (if captured m \<noteq> None then getMVVLVA m else 0)
     + (if promotion m \<noteq> None then 900 else 0)
     + (if ply < length (killerMoves ai) \<and> killer_includes ai ply m then 100 else 0)
     + (case historyTable ai (getMoveKey m) of None \<Rightarrow> 0 | Some v \<Rightarrow> v)"

text \<open>\<open>Array.prototype.sort\<close> is stable, and the comparator \<open>scoreB - scoreA\<close>
  orders by decreasing score.\<close>

definition orderMoves :: "ChessAI \<Rightarrow> Move list \<Rightarrow> nat \<Rightarrow> Move list" where
  "orderMoves ai moves ply = sort_key (\<lambda>m. - order_score ai ply m) moves"

text \<open>The loop over the captures in \<open>quiescenceSearch\<close>; \<open>rec\<close> is the recursive
  call one ply deeper.\<close>

fun quiescence_loop ::
  "(GameState \<Rightarrow> jsnum \<Rightarrow> jsnum \<Rightarrow> jsnum) \<Rightarrow> GameState \<Rightarrow> bool \<Rightarrow> Move list \<Rightarrow> jsnum \<Rightarrow> jsnum \<Rightarrow> jsnum" where
  "quiescence_loop rec gs isMaximizing [] alpha beta = (if isMaximizing then alpha else beta)"
| "quiescence_loop rec gs isMaximizing (m # rest) alpha beta =
     (let sc = rec (ChessAI_makeMove gs m) alpha beta in
      if isMaximizing then
        (if jle beta sc then beta
         else quiescence_loop rec gs isMaximizing rest (jmax alpha sc) beta)
      else
        (if jle sc alpha then alpha
         else quiescence_loop rec gs isMaximizing rest alpha (jmin beta sc)))"

function quiescenceSearch :: "GameState \<Rightarrow> jsnum \<Rightarrow> jsnum \<Rightarrow> bool \<Rightarrow> nat \<Rightarrow> jsnum" where
  "quiescenceSearch gs alpha beta isMaximizing depth =
     (if depth > 10 then evaluatePosition gs
      else
        (let standPat = evaluatePosition gs;
             captures = sort_key (\<lambda>m. - getMVVLVA m)
                          (filter (\<lambda>m. captured m \<noteq> None) (generateLegalMoves gs));
             rec = (\<lambda>gs' a b. quiescenceSearch gs' a b (\<not> isMaximizing) (depth + 1))
         in if isMaximizing then
              (if jle beta standPat then beta
               else quiescence_loop rec gs isMaximizing captures (jmax alpha standPat) beta)
            else
              (if jle standPat alpha then alpha
               else quiescence_loop rec gs isMaximizing captures alpha (jmin beta standPat))))"
  by pat_completeness auto
termination
  by (relation "measure (\<lambda>(gs, alpha, beta, isMaximizing, depth). 11 - depth)") auto

declare quiescenceSearch.simps [simp del]

text \<open>The loop over the ordered moves in \<open>minimax\<close>, with its \<open>break\<close> on a
  cutoff; \<open>rec\<close> is the recursive call at \<open>depth - 1\<close>.\<close>

fun minimax_loop ::
  "(ChessAI \<Rightarrow> GameState \<Rightarrow> jsnum \<Rightarrow> jsnum \<Rightarrow> SearchResult \<times> ChessAI) \<Rightarrow> GameState \<Rightarrow> bool \<Rightarrow> nat
   \<Rightarrow> Move list \<Rightarrow> ChessAI \<Rightarrow> jsnum \<Rightarrow> jsnum \<Rightarrow> Move option \<Rightarrow> jsnum
   \<Rightarrow> (Move option \<times> jsnum) \<times> ChessAI" where
  "minimax_loop rec gs isMaximizing ply [] ai alpha beta bestMove bestScore =
     ((bestMove, bestScore), ai)"
| "minimax_loop rec gs isMaximizing ply (m # rest) ai alpha beta bestMove bestScore =
     (let newGameState = ChessAI_makeMove gs m;
          (result, ai) = rec ai newGameState alpha beta;
          better = (if isMaximizing then jlt bestScore (score result)
                    else jlt (score result) bestScore);
          bestScore = (if better then score result else bestScore);
          bestMove = (if better then Some m else bestMove);
          alpha = (if isMaximizing then jmax alpha bestScore else alpha);
          beta = (if isMaximizing then beta else jmin beta bestScore)
      in if jle beta alpha then
           ((bestMove, bestScore),
            (if captured m = None \<and> ply < length (killerMoves ai)
             then ai\<lparr>killerMoves := (killerMoves ai)[ply := take 2 (m # killerMoves ai ! ply)]\<rparr>
             else ai))
         else minimax_loop rec gs isMaximizing ply rest ai alpha beta bestMove bestScore)"

text \<open>\<open>ttEntry && ttEntry.depth >= depth\<close>\<close>

definition tt_hit :: "ChessAI \<Rightarrow> string \<Rightarrow> nat \<Rightarrow> TTEntry option" where
  "tt_hit ai positionKey depth =
     (case transpositionTable ai positionKey of
        None \<Rightarrow> None
      | Some ttEntry \<Rightarrow> if tt_depth ttEntry \<ge> depth then Some ttEntry else None)"

text \<open>\<open>getBestMove\<close> calls \<open>minimax\<close> with depths \<open>1, 2, ...\<close> and ply \<open>0\<close>, and each
  recursive call has one less and one more: both are natural numbers.\<close>

function minimax ::
  "ChessAI \<Rightarrow> GameState \<Rightarrow> nat \<Rightarrow> jsnum \<Rightarrow> jsnum \<Rightarrow> bool \<Rightarrow> nat \<Rightarrow> SearchResult \<times> ChessAI" where
  "minimax ai gs depth alpha beta isMaximizing ply =
     (let positionKey = getPositionKey gs in
      case tt_hit ai positionKey depth of
        Some ttEntry \<Rightarrow> (\<lparr>score = tt_score ttEntry, move = tt_move ttEntry\<rparr>, ai)
      | None \<Rightarrow>
          if depth = 0 then
            (\<lparr>score = quiescenceSearch gs alpha beta isMaximizing 0, move = None\<rparr>, ai)
          else
            (let moves = orderMoves ai (generateLegalMoves gs) ply in
             if length moves = 0 then
               (if isInCheck gs (activeColor gs)
                then (\<lparr>score = (if isMaximizing then Fin (- 10000 + int ply)
                                 else Fin (10000 - int ply)), move = None\<rparr>, ai)
                else (\<lparr>score = Fin 0, move = None\<rparr>, ai))
             else
               (let rec = (\<lambda>ai' gs' a b. minimax ai' gs' (depth - 1) a b (\<not> isMaximizing) (ply + 1));
                    ((bestMove, bestScore), ai1) =
                       minimax_loop rec gs isMaximizing ply moves ai alpha beta None
                         (if isMaximizing then NegInf else PosInf);
                    ai2 = ai1\<lparr>transpositionTable := (transpositionTable ai1)
                               (positionKey \<mapsto> \<lparr>tt_score = bestScore, tt_depth = depth,
                                                 tt_move = bestMove\<rparr>)\<rparr>
                in (\<lparr>score = bestScore, move = bestMove\<rparr>, ai2))))"
  by pat_completeness auto
termination
  by (relation "measure (\<lambda>(ai, gs, depth, alpha, beta, isMaximizing, ply). depth)") auto

declare minimax.simps [simp del]

section \<open>Runs of the engine and an example game\<close>

text \<open>The shape of every generated move: it has no promotion, or else it is an ordinary
  step to another square.\<close>

definition plain_or_promotion :: "Move \<Rightarrow> bool" where
  "plain_or_promotion m =
     (promotion m = None \<or> (castling m = None \<and> \<not> enPassant m \<and> mfrom m \<noteq> mto m))"

text \<open>A caller's sequence of \<open>makeMove\<close> calls (accepted or not), and the list of the
  engine's states after each call.\<close>

fun play :: "Move list \<Rightarrow> ChessEngine \<times> heap \<Rightarrow> ChessEngine \<times> heap" where
  "play [] eh = eh"
| "play (m # ms) eh = play ms (snd (ChessEngine_makeMove m eh))"

fun play_trace :: "Move list \<Rightarrow> ChessEngine \<times> heap \<Rightarrow> (ChessEngine \<times> heap) list" where
  "play_trace [] eh = []"
| "play_trace (m # ms) eh =
     snd (ChessEngine_makeMove m eh) # play_trace ms (snd (ChessEngine_makeMove m eh))"

definition white :: "PieceType \<Rightarrow> Piece" where
  "white t = \<lparr>ptype = t, color = White\<rparr>"

definition black :: "PieceType \<Rightarrow> Piece" where
  "black t = \<lparr>ptype = t, color = Black\<rparr>"

text \<open>A position written file by file, in the key order of \<open>createInitialPosition\<close>.\<close>

definition position_of_files :: "Piece option list list \<Rightarrow> Position" where
  "position_of_files cols = zip getAllSquares (concat cols)"

definition home_file :: "PieceType \<Rightarrow> Piece option list" where
  "home_file t = [Some (white t), Some (white Pawn), None, None, None, None,
                  Some (black Pawn), Some (black t)]"

text \<open>
  The example game: 1. a4 Nf6 2. Ra2 Ng8 3. Ra3 Nf6 4. Ra1 Ng8 5. Nf3 Nf6 6. Ng1.
  The placement after Black's first move comes back after White's fourth move and after
  White's sixth move, the first time with White to move and then twice with Black to
  move. \<open>example_point k\<close> is the engine and the store after \<open>k\<close> plies, and
  \<open>example_keys\<close> are the keys recorded on the way.
\<close>

definition example_game :: "Move list" where
  "example_game =
     [mk_move ''a2'' ''a4'' (white Pawn), mk_move ''g8'' ''f6'' (black Knight),
      mk_move ''a1'' ''a2'' (white Rook), mk_move ''f6'' ''g8'' (black Knight),
      mk_move ''a2'' ''a3'' (white Rook), mk_move ''g8'' ''f6'' (black Knight),
      mk_move ''a3'' ''a1'' (white Rook), mk_move ''f6'' ''g8'' (black Knight),
      mk_move ''g1'' ''f3'' (white Knight), mk_move ''g8'' ''f6'' (black Knight),
      mk_move ''f3'' ''g1'' (white Knight)]"

definition example_keys :: "string list" where
  "example_keys =
     [''rnbqkbnr/pppppppp/8/8/P7/8/1PPPPPPP/RNBQKBNR'',
      ''rnbqkb1r/pppppppp/5n2/8/P7/8/1PPPPPPP/RNBQKBNR'',
      ''rnbqkb1r/pppppppp/5n2/8/P7/8/RPPPPPPP/1NBQKBNR'',
      ''rnbqkbnr/pppppppp/8/8/P7/8/RPPPPPPP/1NBQKBNR'',
      ''rnbqkbnr/pppppppp/8/8/P7/R7/1PPPPPPP/1NBQKBNR'',
      ''rnbqkb1r/pppppppp/5n2/8/P7/R7/1PPPPPPP/1NBQKBNR'',
      ''rnbqkb1r/pppppppp/5n2/8/P7/8/1PPPPPPP/RNBQKBNR'',
      ''rnbqkbnr/pppppppp/8/8/P7/8/1PPPPPPP/RNBQKBNR'',
      ''rnbqkbnr/pppppppp/8/8/P7/5N2/1PPPPPPP/RNBQKB1R'',
      ''rnbqkb1r/pppppppp/5n2/8/P7/5N2/1PPPPPPP/RNBQKB1R'',
      ''rnbqkb1r/pppppppp/5n2/8/P7/8/1PPPPPPP/RNBQKBNR'']"

definition example_a_file :: "nat \<Rightarrow> Piece option list" where
  "example_a_file k =
     (if k = 0 then home_file Rook
      else [if k \<in> {3, 4, 5, 6} then None else Some (white Rook),
            if k \<in> {3, 4} then Some (white Rook) else None,
            if k \<in> {5, 6} then Some (white Rook) else None,
            Some (white Pawn), None, None, Some (black Pawn), Some (black Rook)])"

definition example_f_file :: "nat \<Rightarrow> Piece option list" where
  "example_f_file k =
     [Some (white Bishop), Some (white Pawn),
      if k \<in> {9, 10} then Some (white Knight) else None, None, None,
      if k \<in> {2, 3, 6, 7, 10, 11} then Some (black Knight) else None,
      Some (black Pawn), Some (black Bishop)]"

definition example_g_file :: "nat \<Rightarrow> Piece option list" where
  "example_g_file k =
     [if k \<in> {9, 10} then None else Some (white Knight), Some (white Pawn),
      None, None, None, None, Some (black Pawn),
      if k \<in> {2, 3, 6, 7, 10, 11} then None else Some (black Knight)]"

definition example_point :: "nat \<Rightarrow> ChessEngine \<times> heap" where
  "example_point k =
     (\<lparr>gameState =
         \<lparr>position = position_of_files
             [example_a_file k, home_file Knight, home_file Bishop, home_file Queen,
              home_file King, example_f_file k, example_g_file k, home_file Rook],
          activeColor = (if even k then White else Black),
          castlingRights = \<lparr>whiteKingside = True, whiteQueenside = (k < 3),
                              blackKingside = True, blackQueenside = True\<rparr>,
          enPassantTarget = (if k = 1 then Some ''a3'' else None),
          halfmoveClock = int (k - 1),
          fullmoveNumber = 1 + int (k div 2),
          moveHistory = 0\<rparr>,
       moveHistory_engine = take k example_keys\<rparr>,
      [take k example_game])"



definition queen_for_pawn :: Move where
  "queen_for_pawn = mk_move ''a2'' ''a4'' (white Queen)"

text \<open>
  Two positions in which White, to move, has no legal move: a stalemate (king h1, pawn
  e5 against king f2 and pawns d5, e6, g3) and a checkmate (the pawn g3 replaced by a
  queen on h4). \<open>en_passant_state\<close> is the stalemate position with the en-passant
  target d6, where the capture e5xd6 is White's only move.
\<close>

definition empty_file :: "Piece option list" where
  "empty_file = replicate 8 None"

definition stalemate_state :: GameState where
  "stalemate_state =
     \<lparr>position = position_of_files
         [empty_file, empty_file, empty_file,
          [None, None, None, None, Some (black Pawn), None, None, None],
          [None, None, None, None, Some (white Pawn), Some (black Pawn), None, None],
          [None, Some (black King), None, None, None, None, None, None],
          [None, None, Some (black Pawn), None, None, None, None, None],
          [Some (white King), None, None, None, None, None, None, None]],
      activeColor = White,
      castlingRights = \<lparr>whiteKingside = False, whiteQueenside = False,
                          blackKingside = False, blackQueenside = False\<rparr>,
      enPassantTarget = None, halfmoveClock = 0, fullmoveNumber = 40, moveHistory = 0\<rparr>"

definition checkmate_state :: GameState where
  "checkmate_state =
     stalemate_state\<lparr>position := position_of_files
         [empty_file, empty_file, empty_file,
          [None, None, None, None, Some (black Pawn), None, None, None],
          [None, None, None, None, Some (white Pawn), Some (black Pawn), None, None],
          [None, Some (black King), None, None, None, None, None, None],
          empty_file,
          [Some (white King), None, None, Some (black Queen), None, None, None, None]]\<rparr>"

definition en_passant_state :: GameState where
  "en_passant_state = stalemate_state\<lparr>enPassantTarget := Some ''d6''\<rparr>"

definition en_passant_capture :: Move where
  "en_passant_capture =
     (mk_move ''e5'' ''d6'' (white Pawn))\<lparr>captured := Some (black Pawn), enPassant := True\<rparr>"

text \<open>The key that the specification describes for the repetition rule: the position
  together with the side to move.\<close>

definition spec_repetition_key :: "ChessEngine \<Rightarrow> string \<times> PieceColor" where
  "spec_repetition_key e = (positionToFEN e, activeColor (gameState e))"

section \<open>Properties\<close>

subsection \<open>Positions as objects\<close>

lemma pos_get_pos_set: "pos_get (pos_set p k v) k' = (if k' = k then v else pos_get p k')"
  by (induction p) (auto simp: pos_get_def)

lemma keys_pos_set: "fst ` set (pos_set p k v) = insert k (fst ` set p)"
  by (induction p k v rule: pos_set.induct) (simp_all add: insert_commute)

lemma distinct_pos_set: "distinct (map fst p) \<Longrightarrow> distinct (map fst (pos_set p k v))"
  by (induction p) (auto simp: keys_pos_set)

subsection \<open>The engine's move application and the generator's agree on generated moves\<close>

lemma pos_set_twice: "pos_set (pos_set p k v) k v' = pos_set p k v'"
  by (induction p) auto

lemma pos_set_overwrite:
  "k \<noteq> k' \<Longrightarrow> pos_set (pos_set (pos_set p k v) k' w) k v' = pos_set (pos_set p k v') k' w"
  by (induction p) (auto simp: pos_set_twice)

lemma FILES_nth:
  assumes "0 \<le> f" "f \<le> 7"
  shows "\<exists>c. FILES ! nat f = [c] \<and> indexOf FILES (Some [c]) = f"
proof -
  from assms have "f = 0 \<or> f = 1 \<or> f = 2 \<or> f = 3 \<or> f = 4 \<or> f = 5 \<or> f = 6 \<or> f = 7"
    by arith
  then show ?thesis
    by (elim disjE) (simp_all add: FILES_def indexOf_def)
qed

lemma RANKS_nth:
  assumes "0 \<le> r" "r \<le> 7"
  shows "\<exists>c. RANKS ! nat r = [c] \<and> indexOf RANKS (Some [c]) = r"
proof -
  from assms have "r = 0 \<or> r = 1 \<or> r = 2 \<or> r = 3 \<or> r = 4 \<or> r = 5 \<or> r = 6 \<or> r = 7"
    by arith
  then show ?thesis
    by (elim disjE) (simp_all add: RANKS_def indexOf_def)
qed

lemma coordinatesToSquare_inverse:
  assumes "coordinatesToSquare f r = Some s"
  shows "squareToCoordinates s = (f, r)"
proof -
  from assms have range: "0 \<le> f" "f \<le> 7" "0 \<le> r" "r \<le> 7"
    and s: "s = FILES ! nat f @ RANKS ! nat r"
    by (auto simp: coordinatesToSquare_def split: if_splits)
  from FILES_nth[OF range(1,2)] obtain c where c: "FILES ! nat f = [c]" "indexOf FILES (Some [c]) = f"
    by blast
  from RANKS_nth[OF range(3,4)] obtain d where d: "RANKS ! nat r = [d]" "indexOf RANKS (Some [d]) = r"
    by blast
  show ?thesis
    by (simp add: s c d squareToCoordinates_def charAt_def)
qed

lemma same_position_when_plain:
  "plain_or_promotion m \<Longrightarrow> position (applyMove gs m) = position (MoveGenerator_makeMove gs m)"
  by (auto simp: plain_or_promotion_def applyMove_def MoveGenerator_makeMove_def Let_def
        apply_castling_def apply_enPassant_def pos_set_overwrite split: option.splits)

lemma slide_ray_plain:
  "list_all (\<lambda>m. promotion m = None) (slide_ray pos src pc fc dir i)"
proof (induction pos src pc fc dir i rule: slide_ray.induct)
  case (1 pos src pc fromCoords dir i)
  show ?case
    unfolding slide_ray.simps[of pos src pc fromCoords dir i]
    using "1.IH" by (simp add: mk_move_def split: option.splits)
qed

lemma step_move_plain: "list_all (\<lambda>m. promotion m = None) (step_move pos src pc fc off)"
  by (simp add: step_move_def mk_move_def split: option.splits)

lemma castling_plain:
  "list_all (\<lambda>m. promotion m = None) (generateCastlingMoves gs src pc)"
  by (simp add: generateCastlingMoves_def mk_move_def Let_def)

lemma list_all_concat_map: "(\<And>x. list_all P (f x)) \<Longrightarrow> list_all P (concat (map f xs))"
  by (induction xs) simp_all

lemma list_all_weaken: "list_all P xs \<Longrightarrow> (\<And>x. P x \<Longrightarrow> Q x) \<Longrightarrow> list_all Q xs"
  by (induction xs) simp_all

lemma pawn_captures_plain: "list_all plain_or_promotion (pawn_captures gs src pc off)"
proof -
  obtain fl rk where fr: "squareToCoordinates src = (fl, rk)"
    by (cases "squareToCoordinates src")
  have target: "src \<noteq> sq"
    if "coordinatesToSquare (fl + off) (rk + (if color pc = White then 1 else -1)) = Some sq"
    for sq
    using coordinatesToSquare_inverse[OF that] fr by (auto split: if_splits)
  show ?thesis
    using target
    by (simp add: pawn_captures_def fr Let_def plain_or_promotion_def mk_move_def
          promotionPieces_def split: option.splits)
qed

lemma pawn_moves_plain: "list_all plain_or_promotion (generatePawnMoves gs src pc)"
proof -
  obtain fl rk where fr: "squareToCoordinates src = (fl, rk)"
    by (cases "squareToCoordinates src")
  have forward: "src \<noteq> sq"
    if "coordinatesToSquare fl (rk + (if color pc = White then 1 else -1)) = Some sq" for sq
    using coordinatesToSquare_inverse[OF that] fr by (auto split: if_splits)
  show ?thesis
    using forward pawn_captures_plain[of gs src pc]
    by (simp add: generatePawnMoves_def fr Let_def plain_or_promotion_def mk_move_def
          promotionPieces_def split: option.splits)
qed

lemma no_promotion_plain: "promotion m = None \<Longrightarrow> plain_or_promotion m"
  by (simp add: plain_or_promotion_def)

lemma piece_moves_plain: "list_all plain_or_promotion (generatePieceMoves gs src pc)"
  by (cases "ptype pc")
     (simp_all add: generatePieceMoves_def generateRookMoves_def generateBishopMoves_def
        generateQueenMoves_def generateSlidingMoves_def generateKnightMoves_def
        generateKingMoves_def pawn_moves_plain
        list_all_weaken[OF slide_ray_plain no_promotion_plain]
        list_all_weaken[OF step_move_plain no_promotion_plain]
        list_all_weaken[OF castling_plain no_promotion_plain]
        list_all_concat_map)

lemma pseudo_legal_plain: "list_all plain_or_promotion (generatePseudoLegalMoves gs)"
  unfolding generatePseudoLegalMoves_def
  by (rule list_all_concat_map) (simp add: piece_moves_plain split: prod.splits option.splits)

lemma same_position_generated:
  "m \<in> set (generatePseudoLegalMoves gs)
   \<Longrightarrow> position (applyMove gs m) = position (MoveGenerator_makeMove gs m)"
  using pseudo_legal_plain[of gs] by (auto simp: list_all_iff intro: same_position_when_plain)

subsection \<open>Check depends on the position only\<close>

lemma list_ex_concat_map_cong:
  "(\<And>x. x \<in> set xs \<Longrightarrow> list_ex P (f x) = list_ex P (g x))
   \<Longrightarrow> list_ex P (concat (map f xs)) = list_ex P (concat (map g xs))"
  by (induction xs) simp_all

lemma findKing_Some:
  "findKing p c = Some ks \<Longrightarrow> \<exists>k. (ks, Some k) \<in> set p \<and> ptype k = King \<and> color k = c"
  by (induction p c rule: findKing.induct) (auto split: option.splits if_splits)

lemma pos_get_member:
  "distinct (map fst p) \<Longrightarrow> (ks, v) \<in> set p \<Longrightarrow> pos_get p ks = v"
  by (simp add: pos_get_def)

lemma castling_lands_on_empty:
  "list_all (\<lambda>m. pos_get (position gs) (mto m) = None) (generateCastlingMoves gs src pc)"
  by (simp add: generateCastlingMoves_def mk_move_def Let_def)

lemma list_all_not_ex: "list_all Q xs \<Longrightarrow> (\<And>x. Q x \<Longrightarrow> \<not> P x) \<Longrightarrow> \<not> list_ex P xs"
  by (induction xs) auto

lemma castling_targets_empty:
  "pos_get (position gs) ks = Some k
   \<Longrightarrow> \<not> list_ex (\<lambda>m. mto m = ks) (generateCastlingMoves gs src pc)"
  by (rule list_all_not_ex[OF castling_lands_on_empty]) auto

lemma pawn_captures_attack:
  assumes "position gs1 = position gs2"
    and "pos_get (position gs1) ks = Some k" and "color k \<noteq> color pc"
  shows "list_ex (\<lambda>m. mto m = ks) (pawn_captures gs1 src pc off)
       = list_ex (\<lambda>m. mto m = ks) (pawn_captures gs2 src pc off)"
proof -
  obtain fl rk where fr: "squareToCoordinates src = (fl, rk)"
    by (cases "squareToCoordinates src")
  show ?thesis
  proof (cases "coordinatesToSquare (fl + off) (rk + (if color pc = White then 1 else -1))")
    case None
    then show ?thesis by (simp add: pawn_captures_def fr Let_def)
  next
    case (Some cs)
    show ?thesis
    proof (cases "cs = ks")
      case True
      have "list_ex (\<lambda>m. mto m = ks) (pawn_captures gs src pc off)"
        if "position gs = position gs1" for gs
        using assms(2,3) that
        by (simp add: pawn_captures_def fr Some True Let_def mk_move_def promotionPieces_def)
      from this[of gs1] this[of gs2] assms(1) show ?thesis by simp
    next
      case False
      then show ?thesis
        using assms(1)
        by (simp add: pawn_captures_def fr Some Let_def mk_move_def promotionPieces_def
              split: option.splits)
    qed
  qed
qed

lemma pawn_moves_attack:
  assumes "position gs1 = position gs2"
    and "pos_get (position gs1) ks = Some k" and "color k \<noteq> color pc"
  shows "list_ex (\<lambda>m. mto m = ks) (generatePawnMoves gs1 src pc)
       = list_ex (\<lambda>m. mto m = ks) (generatePawnMoves gs2 src pc)"
  using pawn_captures_attack[OF assms, of src] assms(1)
  by (simp add: generatePawnMoves_def Let_def split_beta)

lemma piece_moves_attack:
  assumes "position gs1 = position gs2"
    and "pos_get (position gs1) ks = Some k" and "color k \<noteq> color pc"
  shows "list_ex (\<lambda>m. mto m = ks) (generatePieceMoves gs1 src pc)
       = list_ex (\<lambda>m. mto m = ks) (generatePieceMoves gs2 src pc)"
  using assms(1) pawn_moves_attack[OF assms]
        castling_targets_empty[OF assms(2), of src pc]
        castling_targets_empty[of gs2 ks k src pc] assms(2)
  by (cases "ptype pc")
     (simp_all add: generatePieceMoves_def generateRookMoves_def generateBishopMoves_def
        generateQueenMoves_def generateSlidingMoves_def generateKnightMoves_def
        generateKingMoves_def)

lemma opposite_neq: "opposite c \<noteq> c"
  by (cases c) (simp_all add: opposite_def)

lemma pseudo_legal_attack:
  assumes same: "position gs1 = position gs2" and side: "activeColor gs1 = activeColor gs2"
    and at: "pos_get (position gs1) ks = Some k" and other: "color k \<noteq> activeColor gs1"
  shows "list_ex (\<lambda>m. mto m = ks) (generatePseudoLegalMoves gs1)
       = list_ex (\<lambda>m. mto m = ks) (generatePseudoLegalMoves gs2)"
  unfolding generatePseudoLegalMoves_def same[symmetric] side[symmetric]
proof (rule list_ex_concat_map_cong)
  fix x assume "x \<in> set (position gs1)"
  obtain sq v where x: "x = (sq, v)" by (cases x)
  show "list_ex (\<lambda>m. mto m = ks)
          (case x of (square, pc) \<Rightarrow>
             case pc of None \<Rightarrow> []
             | Some pc \<Rightarrow> if color pc = activeColor gs1
                         then generatePieceMoves gs1 square pc else [])
      = list_ex (\<lambda>m. mto m = ks)
          (case x of (square, pc) \<Rightarrow>
             case pc of None \<Rightarrow> []
             | Some pc \<Rightarrow> if color pc = activeColor gs1
                         then generatePieceMoves gs2 square pc else [])"
  proof (cases v)
    case None
    then show ?thesis by (simp add: x)
  next
    case (Some pc)
    show ?thesis
    proof (cases "color pc = activeColor gs1")
      case True
      with other have "color k \<noteq> color pc" by simp
      from piece_moves_attack[OF same at this, of sq]
      show ?thesis by (simp add: x Some True)
    next
      case False
      then show ?thesis by (simp add: x Some)
    qed
  qed
qed

lemma isInCheck_position_only:
  assumes same: "position gs1 = position gs2" and keys: "distinct (map fst (position gs1))"
  shows "isInCheck gs1 c = isInCheck gs2 c"
proof (cases "findKing (position gs1) c")
  case None
  then show ?thesis using same by (simp add: isInCheck_def)
next
  case (Some ks)
  from findKing_Some[OF Some] obtain k
    where k: "(ks, Some k) \<in> set (position gs1)" "ptype k = King" "color k = c"
    by blast
  from pos_get_member[OF keys k(1)] have at: "pos_get (position gs1) ks = Some k" .
  have "list_ex (\<lambda>m. mto m = ks) (generatePseudoLegalMoves (gs1\<lparr>activeColor := opposite c\<rparr>))
      = list_ex (\<lambda>m. mto m = ks) (generatePseudoLegalMoves (gs2\<lparr>activeColor := opposite c\<rparr>))"
    using same at k(3) opposite_neq[of c]
    by (intro pseudo_legal_attack[where k = k]) auto
  then show ?thesis
    using same Some by (simp add: isInCheck_def)
qed

lemma distinct_apply_castling:
  "distinct (map fst p) \<Longrightarrow> distinct (map fst (apply_castling p m))"
  by (simp add: apply_castling_def Let_def distinct_pos_set split: option.splits CastlingSide.splits)

lemma distinct_apply_enPassant:
  "distinct (map fst p) \<Longrightarrow> distinct (map fst (apply_enPassant p m))"
  by (simp add: apply_enPassant_def Let_def distinct_pos_set)

lemma distinct_applyMove:
  "distinct (map fst (position gs)) \<Longrightarrow> distinct (map fst (position (applyMove gs m)))"
  by (simp add: applyMove_def Let_def distinct_pos_set distinct_apply_castling
        distinct_apply_enPassant)

subsection \<open>Generated moves carry a captured piece exactly when they capture\<close>









subsection \<open>The accepting and the rejecting branch of \<open>makeMove\<close>\<close>

lemma moveHistory_applyMove: "moveHistory (applyMove gs m) = moveHistory gs"
  by (simp add: applyMove_def Let_def)

lemma makeMove_reject:
  "\<not> list_ex (\<lambda>lm. mfrom lm = mfrom m \<and> mto lm = mto m \<and> promotion lm = promotion m)
        (generateLegalMoves (gameState (fst eh)))
   \<Longrightarrow> ChessEngine_makeMove m eh = (False, eh)"
  by (cases eh) (simp add: ChessEngine_makeMove_def Let_def getLegalMoves_def)

lemma makeMove_accept:
  "list_ex (\<lambda>lm. mfrom lm = mfrom m \<and> mto lm = mto m \<and> promotion lm = promotion m)
      (generateLegalMoves (gameState (fst eh)))
   \<Longrightarrow> ChessEngine_makeMove m eh =
       (True,
        \<lparr>gameState = applyMove (gameState (fst eh)) m,
         moveHistory_engine = moveHistory_engine (fst eh)
            @ [positionToFEN ((fst eh)\<lparr>gameState := applyMove (gameState (fst eh)) m\<rparr>)]\<rparr>,
        heap_push (snd eh) (moveHistory (gameState (fst eh))) m)"
  by (cases eh) (simp add: ChessEngine_makeMove_def Let_def getLegalMoves_def moveHistory_applyMove)

lemma legal_witness:
  "(sq, Some pc) \<in> set (position gs) \<Longrightarrow> color pc = activeColor gs
   \<Longrightarrow> lm \<in> set (generatePieceMoves gs sq pc) \<Longrightarrow> isLegalMove gs lm
   \<Longrightarrow> lm \<in> set (generateLegalMoves gs)"
  unfolding generateLegalMoves_def generatePseudoLegalMoves_def
  by (auto intro!: bexI[of _ "(sq, Some pc)"])

lemma legal_list_ex:
  "lm \<in> set (generateLegalMoves gs) \<Longrightarrow> P lm \<Longrightarrow> list_ex P (generateLegalMoves gs)"
  by (auto simp: list_ex_iff)

subsection \<open>The example game is played as written\<close>

lemma example_start: "new_ChessEngine [] = example_point 0"
  by code_simp

lemma example_legal_0:
  "mk_move ''a2'' ''a4'' (white Pawn)
     \<in> set (generateLegalMoves (gameState (fst (example_point 0))))"
  by (rule legal_witness[where sq = "''a2''" and pc = "white Pawn"]; code_simp)

lemma example_step_0:
  "ChessEngine_makeMove (example_game ! 0) (example_point 0) = (True, example_point 1)"
  by (subst makeMove_accept, rule legal_list_ex[OF example_legal_0]; code_simp)

lemma example_legal_1:
  "mk_move ''g8'' ''f6'' (black Knight)
     \<in> set (generateLegalMoves (gameState (fst (example_point 1))))"
  by (rule legal_witness[where sq = "''g8''" and pc = "black Knight"]; code_simp)

lemma example_step_1:
  "ChessEngine_makeMove (example_game ! 1) (example_point 1) = (True, example_point 2)"
  by (subst makeMove_accept, rule legal_list_ex[OF example_legal_1]; code_simp)

lemma example_legal_2:
  "mk_move ''a1'' ''a2'' (white Rook)
     \<in> set (generateLegalMoves (gameState (fst (example_point 2))))"
  by (rule legal_witness[where sq = "''a1''" and pc = "white Rook"]; code_simp)

lemma example_step_2:
  "ChessEngine_makeMove (example_game ! 2) (example_point 2) = (True, example_point 3)"
  by (subst makeMove_accept, rule legal_list_ex[OF example_legal_2]; code_simp)

lemma example_legal_3:
  "mk_move ''f6'' ''g8'' (black Knight)
     \<in> set (generateLegalMoves (gameState (fst (example_point 3))))"
  by (rule legal_witness[where sq = "''f6''" and pc = "black Knight"]; code_simp)

lemma example_step_3:
  "ChessEngine_makeMove (example_game ! 3) (example_point 3) = (True, example_point 4)"
  by (subst makeMove_accept, rule legal_list_ex[OF example_legal_3]; code_simp)

lemma example_legal_4:
  "mk_move ''a2'' ''a3'' (white Rook)
     \<in> set (generateLegalMoves (gameState (fst (example_point 4))))"
  by (rule legal_witness[where sq = "''a2''" and pc = "white Rook"]; code_simp)

lemma example_step_4:
  "ChessEngine_makeMove (example_game ! 4) (example_point 4) = (True, example_point 5)"
  by (subst makeMove_accept, rule legal_list_ex[OF example_legal_4]; code_simp)

lemma example_legal_5:
  "mk_move ''g8'' ''f6'' (black Knight)
     \<in> set (generateLegalMoves (gameState (fst (example_point 5))))"
  by (rule legal_witness[where sq = "''g8''" and pc = "black Knight"]; code_simp)

lemma example_step_5:
  "ChessEngine_makeMove (example_game ! 5) (example_point 5) = (True, example_point 6)"
  by (subst makeMove_accept, rule legal_list_ex[OF example_legal_5]; code_simp)

lemma example_legal_6:
  "mk_move ''a3'' ''a1'' (white Rook)
     \<in> set (generateLegalMoves (gameState (fst (example_point 6))))"
  by (rule legal_witness[where sq = "''a3''" and pc = "white Rook"]; code_simp)

lemma example_step_6:
  "ChessEngine_makeMove (example_game ! 6) (example_point 6) = (True, example_point 7)"
  by (subst makeMove_accept, rule legal_list_ex[OF example_legal_6]; code_simp)

lemma example_legal_7:
  "mk_move ''f6'' ''g8'' (black Knight)
     \<in> set (generateLegalMoves (gameState (fst (example_point 7))))"
  by (rule legal_witness[where sq = "''f6''" and pc = "black Knight"]; code_simp)

lemma example_step_7:
  "ChessEngine_makeMove (example_game ! 7) (example_point 7) = (True, example_point 8)"
  by (subst makeMove_accept, rule legal_list_ex[OF example_legal_7]; code_simp)

lemma example_legal_8:
  "mk_move ''g1'' ''f3'' (white Knight)
     \<in> set (generateLegalMoves (gameState (fst (example_point 8))))"
  by (rule legal_witness[where sq = "''g1''" and pc = "white Knight"]; code_simp)

lemma example_step_8:
  "ChessEngine_makeMove (example_game ! 8) (example_point 8) = (True, example_point 9)"
  by (subst makeMove_accept, rule legal_list_ex[OF example_legal_8]; code_simp)

lemma example_legal_9:
  "mk_move ''g8'' ''f6'' (black Knight)
     \<in> set (generateLegalMoves (gameState (fst (example_point 9))))"
  by (rule legal_witness[where sq = "''g8''" and pc = "black Knight"]; code_simp)

lemma example_step_9:
  "ChessEngine_makeMove (example_game ! 9) (example_point 9) = (True, example_point 10)"
  by (subst makeMove_accept, rule legal_list_ex[OF example_legal_9]; code_simp)

lemma example_legal_10:
  "mk_move ''f3'' ''g1'' (white Knight)
     \<in> set (generateLegalMoves (gameState (fst (example_point 10))))"
  by (rule legal_witness[where sq = "''f3''" and pc = "white Knight"]; code_simp)

lemma example_step_10:
  "ChessEngine_makeMove (example_game ! 10) (example_point 10) = (True, example_point 11)"
  by (subst makeMove_accept, rule legal_list_ex[OF example_legal_10]; code_simp)

lemmas example_steps =
  example_step_0 example_step_1 example_step_2 example_step_3 example_step_4 example_step_5
  example_step_6 example_step_7 example_step_8 example_step_9 example_step_10

lemma example_game_nth:
  "example_game =
     [example_game ! 0, example_game ! 1, example_game ! 2, example_game ! 3,
      example_game ! 4, example_game ! 5, example_game ! 6, example_game ! 7,
      example_game ! 8, example_game ! 9, example_game ! 10]"
  by (simp add: example_game_def)

lemma example_play_trace:
  "play_trace example_game (new_ChessEngine []) =
     [example_point 1, example_point 2, example_point 3, example_point 4, example_point 5,
      example_point 6, example_point 7, example_point 8, example_point 9, example_point 10,
      example_point 11]"
  by (subst example_game_nth)
     (simp only: example_start play_trace.simps example_steps snd_conv)

lemma example_play: "play example_game (new_ChessEngine []) = example_point 11"
  by (subst example_game_nth)
     (simp only: example_start play.simps example_steps snd_conv)

lemma example_play_3: "play (take 3 example_game) (new_ChessEngine []) = example_point 3"
  by (subst example_game_nth)
     (simp only: example_start play.simps example_steps snd_conv take_Suc_Cons take_0
        numeral_3_eq_3)

subsection \<open>Legal moves\<close>

text \<open>
  Claim C1. For every game state and every move that \<open>generateLegalMoves\<close> returns, the
  mover's own king is not in check after the move is applied: neither in the state the
  generator itself simulates (\<open>MoveGenerator.makeMove\<close>) nor, the keys of the position
  object being distinct as those of any object are, in the state the engine's
  \<open>applyMove\<close> produces, which holds the same position.
\<close>

theorem legal_moves_keep_king_safe:
  "m \<in> set (generateLegalMoves gs)
   \<Longrightarrow> \<not> isInCheck (MoveGenerator_makeMove gs m) (activeColor gs)
     \<and> (distinct (map fst (position gs))
          \<longrightarrow> \<not> isInCheck (applyMove gs m) (activeColor gs))"
proof -
  assume legal: "m \<in> set (generateLegalMoves gs)"
  then have safe: "\<not> isInCheck (MoveGenerator_makeMove gs m) (activeColor gs)"
    and pseudo: "m \<in> set (generatePseudoLegalMoves gs)"
    by (simp_all add: generateLegalMoves_def isLegalMove_def)
  have "\<not> isInCheck (applyMove gs m) (activeColor gs)" if "distinct (map fst (position gs))"
    using isInCheck_position_only[OF same_position_generated[OF pseudo] distinct_applyMove[OF that]]
          safe
    by simp
  with safe show ?thesis by simp
qed

theorem legal_moves_keep_king_safe_witness:
  "mk_move ''a2'' ''a4'' (white Pawn)
     \<in> set (generateLegalMoves (gameState (fst (new_ChessEngine []))))
   \<and> distinct (map fst (position (gameState (fst (new_ChessEngine [])))))
   \<and> \<not> isInCheck (MoveGenerator_makeMove (gameState (fst (new_ChessEngine [])))
                    (mk_move ''a2'' ''a4'' (white Pawn)))
          (activeColor (gameState (fst (new_ChessEngine []))))
   \<and> \<not> isInCheck (applyMove (gameState (fst (new_ChessEngine [])))
                    (mk_move ''a2'' ''a4'' (white Pawn)))
          (activeColor (gameState (fst (new_ChessEngine []))))"
proof -
  have keys: "distinct (map fst (position (gameState (fst (example_point 0)))))"
    by code_simp
  from legal_moves_keep_king_safe[OF example_legal_0] example_legal_0 keys
  show ?thesis by (simp add: example_start)
qed

text \<open>
  Claim C8. In the standard initial game state, with White to move,
  \<open>generateLegalMoves\<close> returns exactly 20 moves: 16 pawn moves and 4 knight moves.
\<close>

theorem initial_position_has_20_moves:
  "length (generateLegalMoves (fst (createInitialGameState h))) = 20
   \<and> length (filter (\<lambda>m. ptype (piece m) = Pawn)
               (generateLegalMoves (fst (createInitialGameState h)))) = 16
   \<and> length (filter (\<lambda>m. ptype (piece m) = Knight)
               (generateLegalMoves (fst (createInitialGameState h)))) = 4"
  by code_simp

subsection \<open>The search's move application\<close>

text \<open>
  Claim C9. For every game state and every move, the position that \<open>ChessAI.makeMove\<close>
  returns differs from the input position only at \<open>move.from\<close>, which is emptied, and at
  \<open>move.to\<close>, which holds \<open>move.piece\<close> (the write to \<open>move.from\<close> is the later of
  the two). The result does not depend on the move's \<open>captured\<close>, \<open>promotion\<close>,
  \<open>castling\<close> and \<open>enPassant\<close> fields: no promotion, rook relocation or en-passant
  removal takes place. The en-passant target, the castling rights, the two clocks and
  the history reference are those of the input; the active colour is toggled.
\<close>

theorem ChessAI_makeMove_frame:
  "pos_get (position (ChessAI_makeMove gs m)) sq =
     (if sq = mfrom m then None else if sq = mto m then Some (piece m)
      else pos_get (position gs) sq)
   \<and> fst ` set (position (ChessAI_makeMove gs m)) = fst ` set (position gs) \<union> {mfrom m, mto m}
   \<and> ChessAI_makeMove gs m =
       ChessAI_makeMove gs
         (m\<lparr>captured := None, promotion := None, castling := None, enPassant := False\<rparr>)
   \<and> enPassantTarget (ChessAI_makeMove gs m) = enPassantTarget gs
   \<and> castlingRights (ChessAI_makeMove gs m) = castlingRights gs
   \<and> halfmoveClock (ChessAI_makeMove gs m) = halfmoveClock gs
   \<and> fullmoveNumber (ChessAI_makeMove gs m) = fullmoveNumber gs
   \<and> moveHistory (ChessAI_makeMove gs m) = moveHistory gs
   \<and> activeColor (ChessAI_makeMove gs m) = opposite (activeColor gs)"
  by (simp add: ChessAI_makeMove_def pos_get_pos_set keys_pos_set Let_def insert_commute)

subsection \<open>Castling rights\<close>

lemma castlingRights_applyMove:
  "(whiteKingside (castlingRights (applyMove gs m)) \<longrightarrow> whiteKingside (castlingRights gs))
 \<and> (whiteQueenside (castlingRights (applyMove gs m)) \<longrightarrow> whiteQueenside (castlingRights gs))
 \<and> (blackKingside (castlingRights (applyMove gs m)) \<longrightarrow> blackKingside (castlingRights gs))
 \<and> (blackQueenside (castlingRights (applyMove gs m)) \<longrightarrow> blackQueenside (castlingRights gs))"
  by (simp add: applyMove_def Let_def)

lemma makeMove_cases:
  "ChessEngine_makeMove m eh = (False, eh)
   \<or> gameState (fst (snd (ChessEngine_makeMove m eh))) = applyMove (gameState (fst eh)) m"
  by (cases "list_ex (\<lambda>lm. mfrom lm = mfrom m \<and> mto lm = mto m \<and> promotion lm = promotion m)
        (generateLegalMoves (gameState (fst eh)))")
     (simp_all add: makeMove_accept makeMove_reject)

lemma castlingRights_makeMove:
  "(whiteKingside (castlingRights (gameState (fst (snd (ChessEngine_makeMove m eh)))))
      \<longrightarrow> whiteKingside (castlingRights (gameState (fst eh))))
 \<and> (whiteQueenside (castlingRights (gameState (fst (snd (ChessEngine_makeMove m eh)))))
      \<longrightarrow> whiteQueenside (castlingRights (gameState (fst eh))))
 \<and> (blackKingside (castlingRights (gameState (fst (snd (ChessEngine_makeMove m eh)))))
      \<longrightarrow> blackKingside (castlingRights (gameState (fst eh))))
 \<and> (blackQueenside (castlingRights (gameState (fst (snd (ChessEngine_makeMove m eh)))))
      \<longrightarrow> blackQueenside (castlingRights (gameState (fst eh))))"
  using makeMove_cases[of m eh] castlingRights_applyMove[of "gameState (fst eh)" m]
  by auto

text \<open>
  Claim C6. Each of the four castling-rights flags is non-increasing along every sequence
  of \<open>makeMove\<close> calls: a flag that is false in the engine's state is false after any
  further calls. One successful call keeps a flag exactly when the submitted move's
  piece is neither a king of that colour nor a rook leaving the flag's corner square.
\<close>

theorem castling_rights_never_return:
  "(\<not> whiteKingside (castlingRights (gameState (fst eh)))
      \<longrightarrow> \<not> whiteKingside (castlingRights (gameState (fst (play ms eh)))))
 \<and> (\<not> whiteQueenside (castlingRights (gameState (fst eh)))
      \<longrightarrow> \<not> whiteQueenside (castlingRights (gameState (fst (play ms eh)))))
 \<and> (\<not> blackKingside (castlingRights (gameState (fst eh)))
      \<longrightarrow> \<not> blackKingside (castlingRights (gameState (fst (play ms eh)))))
 \<and> (\<not> blackQueenside (castlingRights (gameState (fst eh)))
      \<longrightarrow> \<not> blackQueenside (castlingRights (gameState (fst (play ms eh)))))
 \<and> (fst (ChessEngine_makeMove m eh) \<longrightarrow>
      whiteKingside (castlingRights (gameState (fst (snd (ChessEngine_makeMove m eh)))))
        = (whiteKingside (castlingRights (gameState (fst eh)))
           \<and> \<not> (ptype (piece m) = King \<and> color (piece m) = White)
           \<and> \<not> (ptype (piece m) = Rook \<and> mfrom m = ''h1''))
      \<and> whiteQueenside (castlingRights (gameState (fst (snd (ChessEngine_makeMove m eh)))))
        = (whiteQueenside (castlingRights (gameState (fst eh)))
           \<and> \<not> (ptype (piece m) = King \<and> color (piece m) = White)
           \<and> \<not> (ptype (piece m) = Rook \<and> mfrom m = ''a1''))
      \<and> blackKingside (castlingRights (gameState (fst (snd (ChessEngine_makeMove m eh)))))
        = (blackKingside (castlingRights (gameState (fst eh)))
           \<and> \<not> (ptype (piece m) = King \<and> color (piece m) = Black)
           \<and> \<not> (ptype (piece m) = Rook \<and> mfrom m = ''h8''))
      \<and> blackQueenside (castlingRights (gameState (fst (snd (ChessEngine_makeMove m eh)))))
        = (blackQueenside (castlingRights (gameState (fst eh)))
           \<and> \<not> (ptype (piece m) = King \<and> color (piece m) = Black)
           \<and> \<not> (ptype (piece m) = Rook \<and> mfrom m = ''a8'')))"
proof -
  have run: "(\<not> whiteKingside (castlingRights (gameState (fst eh)))
      \<longrightarrow> \<not> whiteKingside (castlingRights (gameState (fst (play ms eh)))))
 \<and> (\<not> whiteQueenside (castlingRights (gameState (fst eh)))
      \<longrightarrow> \<not> whiteQueenside (castlingRights (gameState (fst (play ms eh)))))
 \<and> (\<not> blackKingside (castlingRights (gameState (fst eh)))
      \<longrightarrow> \<not> blackKingside (castlingRights (gameState (fst (play ms eh)))))
 \<and> (\<not> blackQueenside (castlingRights (gameState (fst eh)))
      \<longrightarrow> \<not> blackQueenside (castlingRights (gameState (fst (play ms eh)))))"
  proof (induction ms arbitrary: eh)
    case Nil
    show ?case by simp
  next
    case (Cons m ms)
    show ?case
      using Cons.IH[of "snd (ChessEngine_makeMove m eh)"] castlingRights_makeMove[of m eh]
      by (simp only: play.simps) blast
  qed
  have step: "gameState (fst (snd (ChessEngine_makeMove m eh))) = applyMove (gameState (fst eh)) m"
    if "fst (ChessEngine_makeMove m eh)"
    using makeMove_cases[of m eh] that by auto
  have black: "color (piece m) = Black \<longleftrightarrow> color (piece m) \<noteq> White"
    by (cases "color (piece m)") simp_all
  show ?thesis
    using run step by (simp add: applyMove_def Let_def black)
qed

theorem castling_rights_never_return_witness:
  "fst (ChessEngine_makeMove (example_game ! 2) (example_point 2))
   \<and> whiteQueenside (castlingRights (gameState (fst (example_point 2))))
   \<and> \<not> whiteQueenside (castlingRights (gameState
          (fst (play (take 3 example_game) (new_ChessEngine [])))))
   \<and> \<not> whiteQueenside (castlingRights (gameState
          (fst (play (drop 3 example_game) (play (take 3 example_game) (new_ChessEngine []))))))"
proof -
  have cleared: "\<not> whiteQueenside (castlingRights (gameState (fst (example_point 3))))"
    and kept: "whiteQueenside (castlingRights (gameState (fst (example_point 2))))"
    by code_simp+
  have later: "\<not> whiteQueenside (castlingRights (gameState
                   (fst (play (drop 3 example_game) (example_point 3)))))"
    using castling_rights_never_return[of "example_point 3" "drop 3 example_game"] cleared
    by blast
  show ?thesis
    unfolding example_play_3 example_step_2 using cleared kept later by simp
qed

subsection \<open>The halfmove clock\<close>




subsection \<open>\<open>makeMove\<close> is all or nothing\<close>








subsection \<open>The search at a node without legal moves\<close>

lemma orderMoves_Nil: "orderMoves ai [] ply = []"
  by (simp add: orderMoves_def)

text \<open>
  Claim C5, as amended. For every game state with no legal move, \<open>minimax\<close> called with
  a depth above 0, while the transposition table holds no entry of at least that depth
  for the state's key, returns the score \<open>-(10000 - ply)\<close> when the side to move is in
  check and the node is maximizing, \<open>10000 - ply\<close> when it is in check and the node is
  minimizing, and 0 when it is not in check; no move is returned and the caches are
  unchanged. (The table is consulted first: an entry of sufficient depth is returned
  as it is, see the counterexample below.)
\<close>

theorem minimax_no_legal_moves:
  "depth > 0 \<Longrightarrow> generateLegalMoves gs = []
   \<Longrightarrow> tt_hit ai (getPositionKey gs) depth = None
   \<Longrightarrow> minimax ai gs depth alpha beta isMaximizing ply =
       (\<lparr>score = (if isInCheck gs (activeColor gs)
                   then (if isMaximizing then Fin (- (10000 - int ply))
                         else Fin (10000 - int ply))
                   else Fin 0),
         move = None\<rparr>, ai)"
  by (subst minimax.simps) (simp add: orderMoves_Nil Let_def)

lemma stalemate_no_moves: "generateLegalMoves stalemate_state = []"
  by code_simp

lemma stalemate_not_in_check: "\<not> isInCheck stalemate_state (activeColor stalemate_state)"
  by code_simp

lemma checkmate_no_moves: "generateLegalMoves checkmate_state = []"
  by code_simp

lemma checkmate_in_check: "isInCheck checkmate_state (activeColor checkmate_state)"
  by code_simp

lemma tt_hit_new: "tt_hit new_ChessAI k d = None"
  by (simp add: tt_hit_def new_ChessAI_def)

theorem minimax_no_legal_moves_witness:
  "generateLegalMoves stalemate_state = []
   \<and> minimax new_ChessAI stalemate_state 1 NegInf PosInf True 0
       = (\<lparr>score = Fin 0, move = None\<rparr>, new_ChessAI)
   \<and> generateLegalMoves checkmate_state = []
   \<and> minimax new_ChessAI checkmate_state 3 NegInf PosInf True 2
       = (\<lparr>score = Fin (- 9998), move = None\<rparr>, new_ChessAI)
   \<and> minimax new_ChessAI checkmate_state 3 NegInf PosInf False 2
       = (\<lparr>score = Fin 9998, move = None\<rparr>, new_ChessAI)"
  using minimax_no_legal_moves[OF _ stalemate_no_moves tt_hit_new, of 1 NegInf PosInf True 0]
        minimax_no_legal_moves[OF _ checkmate_no_moves tt_hit_new, of 3 NegInf PosInf True 2]
        minimax_no_legal_moves[OF _ checkmate_no_moves tt_hit_new, of 3 NegInf PosInf False 2]
        stalemate_no_moves checkmate_no_moves stalemate_not_in_check checkmate_in_check
  by simp

lemma en_passant_moves: "generateLegalMoves en_passant_state = [en_passant_capture]"
  by code_simp

lemma en_passant_child_eval:
  "evaluatePosition (ChessAI_makeMove en_passant_state en_passant_capture) = Fin 220"
  by code_simp

lemma en_passant_child_captures:
  "filter (\<lambda>m. captured m \<noteq> None)
     (generateLegalMoves (ChessAI_makeMove en_passant_state en_passant_capture)) = []"
  by code_simp

lemma en_passant_child_quiescence:
  "quiescenceSearch (ChessAI_makeMove en_passant_state en_passant_capture) alpha PosInf False 0
     = (if jle (Fin 220) alpha then alpha else Fin 220)"
  by (subst quiescenceSearch.simps)
     (simp only: en_passant_child_eval en_passant_child_captures Let_def, simp add: jmin_def)

lemma same_key: "getPositionKey en_passant_state = getPositionKey stalemate_state"
  by (simp add: getPositionKey_def en_passant_state_def)

lemma captured_en_passant: "captured en_passant_capture \<noteq> None"
  by (simp add: en_passant_capture_def)

lemma new_ChessAI_table: "transpositionTable new_ChessAI = Map.empty"
  by (simp add: new_ChessAI_def)

lemma en_passant_search:
  "minimax new_ChessAI en_passant_state 1 NegInf PosInf True 0 =
     (\<lparr>score = Fin 220, move = Some en_passant_capture\<rparr>,
      new_ChessAI\<lparr>transpositionTable :=
        [getPositionKey stalemate_state \<mapsto>
           \<lparr>tt_score = Fin 220, tt_depth = 1, tt_move = Some en_passant_capture\<rparr>]\<rparr>)"
proof -
  have child: "minimax new_ChessAI (ChessAI_makeMove en_passant_state en_passant_capture) 0
                 NegInf PosInf False (Suc 0) = (\<lparr>score = Fin 220, move = None\<rparr>, new_ChessAI)"
    by (subst minimax.simps)
       (simp add: tt_hit_new en_passant_child_quiescence jle_def)
  show ?thesis
    by (subst minimax.simps)
       (simp add: tt_hit_new en_passant_moves orderMoves_def child same_key Let_def
          jmax_def jle_def new_ChessAI_table)
qed

text \<open>
  The claim as stated fails: after a depth-1 search of \<open>en_passant_state\<close> the table
  holds an entry under the key that \<open>stalemate_state\<close> shares (the key has the
  placement and the side to move only), and the search of the stalemate position
  returns that entry's score 220 and its move.
\<close>

theorem minimax_table_hit_counterexample:
  "generateLegalMoves stalemate_state = []
   \<and> \<not> isInCheck stalemate_state (activeColor stalemate_state)
   \<and> fst (minimax (snd (minimax new_ChessAI en_passant_state 1 NegInf PosInf True 0))
            stalemate_state 1 NegInf PosInf True 0)
       = \<lparr>score = Fin 220, move = Some en_passant_capture\<rparr>"
  unfolding en_passant_search
  by (subst minimax.simps)
     (simp add: tt_hit_def stalemate_no_moves stalemate_not_in_check)

subsection \<open>Threefold repetition\<close>

lemma threefold_iff:
  "(isGameOver e = Some \<lparr>winner = Draw, reason = ThreefoldRepetition\<rparr>)
   = (3 \<le> length (filter (\<lambda>k. k = positionToFEN e) (moveHistory_engine e))
      \<and> getLegalMoves e \<noteq> [] \<and> halfmoveClock (gameState e) < 100)"
  by (auto simp: isGameOver_def Let_def)

lemma positionToFEN_position:
  "position (gameState e1) = position (gameState e2) \<Longrightarrow> positionToFEN e1 = positionToFEN e2"
  by (simp add: positionToFEN_def)

lemma recorded_key_is_current:
  "ChessEngine_makeMove m eh = (True, eh')
   \<Longrightarrow> positionToFEN (fst eh') = last (moveHistory_engine (fst eh'))"
  by (cases "list_ex (\<lambda>lm. mfrom lm = mfrom m \<and> mto lm = mto m \<and> promotion lm = promotion m)
        (generateLegalMoves (gameState (fst eh)))")
     (auto simp: makeMove_accept makeMove_reject positionToFEN_def)

lemma example_recorded_keys:
  "map (\<lambda>k. positionToFEN (fst (example_point k))) [1, 2, 3, 4, 5, 6, 7, 8, 9, 10, 11]
   = example_keys"
  by (simp only: list.map
        recorded_key_is_current[OF example_step_0] recorded_key_is_current[OF example_step_1]
        recorded_key_is_current[OF example_step_2] recorded_key_is_current[OF example_step_3]
        recorded_key_is_current[OF example_step_4] recorded_key_is_current[OF example_step_5]
        recorded_key_is_current[OF example_step_6] recorded_key_is_current[OF example_step_7]
        recorded_key_is_current[OF example_step_8] recorded_key_is_current[OF example_step_9]
        recorded_key_is_current[OF example_step_10])
     code_simp

lemma example_legal_11:
  "mk_move ''f6'' ''g8'' (black Knight)
     \<in> set (generateLegalMoves (gameState (fst (example_point 11))))"
  by (rule legal_witness[where sq = "''f6''" and pc = "black Knight"]; code_simp)

lemma example_game_over:
  "isGameOver (fst (example_point 11)) = Some \<lparr>winner = Draw, reason = ThreefoldRepetition\<rparr>"
proof -
  have key: "positionToFEN (fst (example_point 11)) = example_keys ! 10"
    using example_recorded_keys by (simp add: example_keys_def)
  have count: "3 \<le> length (filter (\<lambda>k. k = example_keys ! 10)
                      (moveHistory_engine (fst (example_point 11))))"
    by code_simp
  have clock: "halfmoveClock (gameState (fst (example_point 11))) < 100"
    by code_simp
  have moves: "getLegalMoves (fst (example_point 11)) \<noteq> []"
    using example_legal_11 by (auto simp: getLegalMoves_def)
  show ?thesis
    unfolding threefold_iff key using count clock moves by simp
qed

text \<open>
  Claim C3, as amended. \<open>isGameOver\<close> reports the threefold-repetition draw exactly
  when the key of the current position occurs at least 3 times in the recorded history
  and neither the no-legal-move tests nor the fifty-move test applies. The key is the
  piece placement alone: two states with the same position have the same key, whatever
  the side to move.
\<close>

theorem threefold_repetition_rule:
  "(isGameOver e = Some \<lparr>winner = Draw, reason = ThreefoldRepetition\<rparr>)
   = (3 \<le> length (filter (\<lambda>k. k = positionToFEN e) (moveHistory_engine e))
      \<and> getLegalMoves e \<noteq> [] \<and> halfmoveClock (gameState e) < 100)
   \<and> (position (gameState e1) = position (gameState e2) \<longrightarrow> positionToFEN e1 = positionToFEN e2)"
  using threefold_iff positionToFEN_position by blast

theorem threefold_repetition_rule_witness:
  "position (gameState (fst (example_point 2))) = position (gameState (fst (example_point 7)))
   \<and> activeColor (gameState (fst (example_point 2))) = White
   \<and> activeColor (gameState (fst (example_point 7))) = Black
   \<and> positionToFEN (fst (example_point 2)) = positionToFEN (fst (example_point 7))
   \<and> 3 \<le> length (filter (\<lambda>k. k = positionToFEN (fst (example_point 11)))
                  (moveHistory_engine (fst (example_point 11))))"
proof -
  have same: "position (gameState (fst (example_point 2)))
            = position (gameState (fst (example_point 7)))"
    and sides: "activeColor (gameState (fst (example_point 2))) = White"
               "activeColor (gameState (fst (example_point 7))) = Black"
    by code_simp+
  from threefold_repetition_rule[of "fst (example_point 11)"
         "fst (example_point 2)" "fst (example_point 7)"] same sides example_game_over
  show ?thesis by simp
qed

text \<open>
  The claim as stated fails on the example game: after its 11 plies \<open>isGameOver\<close>
  reports the repetition draw, while the key of position and side to move has occurred
  only twice among the states recorded (the first of the three equal placements had
  White to move).
\<close>

theorem threefold_ignores_side_counterexample:
  "isGameOver (fst (play example_game (new_ChessEngine [])))
     = Some \<lparr>winner = Draw, reason = ThreefoldRepetition\<rparr>
   \<and> length (filter (\<lambda>k. k = spec_repetition_key (fst (play example_game (new_ChessEngine []))))
              (map (\<lambda>eh. spec_repetition_key (fst eh))
                 (play_trace example_game (new_ChessEngine [])))) = 2"
proof -
  have keys: "map (\<lambda>eh. spec_repetition_key (fst eh))
                [example_point 1, example_point 2, example_point 3, example_point 4,
                 example_point 5, example_point 6, example_point 7, example_point 8,
                 example_point 9, example_point 10, example_point 11]
              = zip example_keys
                  (map (\<lambda>k. activeColor (gameState (fst (example_point k))))
                     [1, 2, 3, 4, 5, 6, 7, 8, 9, 10, 11])"
    using example_recorded_keys
    by (simp add: spec_repetition_key_def example_keys_def)
  have last_key: "spec_repetition_key (fst (example_point 11)) = (example_keys ! 10, Black)"
    using keys by (simp add: example_keys_def) code_simp
  have "length (filter (\<lambda>k. k = (example_keys ! 10, Black))
          (zip example_keys
             (map (\<lambda>k. activeColor (gameState (fst (example_point k))))
                [1, 2, 3, 4, 5, 6, 7, 8, 9, 10, 11]))) = 2"
    by code_simp
  then show ?thesis
    unfolding example_play example_play_trace keys last_key
    using example_game_over by simp
qed

subsection \<open>Snapshots and the shared history array\<close>

text \<open>
  Claim C4 (the code departs from it). A snapshot taken with \<open>getGameState\<close> before a
  move shares its \<open>moveHistory\<close> array with the engine, and the successful
  \<open>makeMove\<close> pushes onto that array: the snapshot's history is empty before the call
  and holds the move after it.
\<close>

theorem snapshot_history_is_mutated:
  "heap_get (snd (new_ChessEngine []))
       (moveHistory (getGameState (fst (new_ChessEngine [])))) = []
   \<and> heap_get (snd (snd (ChessEngine_makeMove (example_game ! 0) (new_ChessEngine []))))
       (moveHistory (getGameState (fst (new_ChessEngine [])))) = [example_game ! 0]"
  unfolding example_start example_step_0 by code_simp

subsection \<open>The submitted move is applied as it is\<close>

lemma queen_for_pawn_accepted:
  "ChessEngine_makeMove queen_for_pawn (example_point 0) =
     (True,
      \<lparr>gameState = applyMove (gameState (fst (example_point 0))) queen_for_pawn,
       moveHistory_engine = moveHistory_engine (fst (example_point 0))
          @ [positionToFEN ((fst (example_point 0))
               \<lparr>gameState := applyMove (gameState (fst (example_point 0))) queen_for_pawn\<rparr>)]\<rparr>,
      heap_push (snd (example_point 0)) (moveHistory (gameState (fst (example_point 0))))
        queen_for_pawn)"
  by (rule makeMove_accept, rule legal_list_ex[OF example_legal_0])
     (simp add: queen_for_pawn_def mk_move_def)

text \<open>
  Claim C10. When \<open>makeMove\<close> accepts a move, the new game state is \<open>applyMove\<close> of the
  submitted move itself. In the initial position the submitted move a2-a4 that names a
  white queen as its piece is accepted (the pawn move a2-a4 is legal), a white queen
  stands on a4 afterwards, no en-passant target is set and the halfmove clock is 1.
\<close>

theorem makeMove_applies_submitted_move:
  "(\<forall>m eh. fst (ChessEngine_makeMove m eh) \<longrightarrow>
        gameState (fst (snd (ChessEngine_makeMove m eh))) = applyMove (gameState (fst eh)) m)
   \<and> pos_get (position (gameState (fst (new_ChessEngine [])))) (mfrom queen_for_pawn)
       = Some (white Pawn)
   \<and> piece queen_for_pawn = white Queen
   \<and> fst (ChessEngine_makeMove queen_for_pawn (new_ChessEngine []))
   \<and> pos_get (position (gameState (fst (snd (ChessEngine_makeMove queen_for_pawn
                                                (new_ChessEngine []))))))
         (mto queen_for_pawn) = Some (white Queen)
   \<and> enPassantTarget (gameState (fst (snd (ChessEngine_makeMove queen_for_pawn
                                             (new_ChessEngine []))))) = None
   \<and> halfmoveClock (gameState (fst (snd (ChessEngine_makeMove queen_for_pawn
                                           (new_ChessEngine []))))) = 1"
proof -
  have general: "\<forall>m eh. fst (ChessEngine_makeMove m eh) \<longrightarrow>
        gameState (fst (snd (ChessEngine_makeMove m eh))) = applyMove (gameState (fst eh)) m"
  proof (intro allI impI)
    fix m eh
    assume accepted: "fst (ChessEngine_makeMove m eh)"
    have "list_ex (\<lambda>lm. mfrom lm = mfrom m \<and> mto lm = mto m \<and> promotion lm = promotion m)
                 (generateLegalMoves (gameState (fst eh)))"
    proof (rule ccontr)
      assume "\<not> list_ex (\<lambda>lm. mfrom lm = mfrom m \<and> mto lm = mto m
                            \<and> promotion lm = promotion m)
                 (generateLegalMoves (gameState (fst eh)))"
      then have "ChessEngine_makeMove m eh = (False, eh)"
        by (rule makeMove_reject)
      with accepted show False by simp
    qed
    then show "gameState (fst (snd (ChessEngine_makeMove m eh))) = applyMove (gameState (fst eh)) m"
      by (simp add: makeMove_accept)
  qed
  have before: "pos_get (position (gameState (fst (example_point 0)))) (mfrom queen_for_pawn)
                  = Some (white Pawn)"
    and pc: "piece queen_for_pawn = white Queen"
    and after: "pos_get (position (applyMove (gameState (fst (example_point 0))) queen_for_pawn))
                  (mto queen_for_pawn) = Some (white Queen)"
    and target: "enPassantTarget (applyMove (gameState (fst (example_point 0))) queen_for_pawn)
                  = None"
    and clock: "halfmoveClock (applyMove (gameState (fst (example_point 0))) queen_for_pawn) = 1"
    by code_simp+
  show ?thesis
    unfolding example_start queen_for_pawn_accepted
    using general before pc after target clock by simp
qed

theorem makeMove_applies_submitted_move_witness:
  "fst (ChessEngine_makeMove queen_for_pawn (new_ChessEngine []))
   \<and> gameState (fst (snd (ChessEngine_makeMove queen_for_pawn (new_ChessEngine []))))
       = applyMove (gameState (fst (new_ChessEngine []))) queen_for_pawn"
  using makeMove_applies_submitted_move by blast

end
